theory Spec2Isabelle
  imports Complex_Main "HOL-Library.Sublist"
begin

section \<open>Values of a generation plan\<close>

text \<open>
  A plan is the value that \<^verbatim>\<open>yaml.load\<close> returns, so the handlers of
  \<^verbatim>\<open>generate.ts\<close> work on untyped JavaScript values. A number is an IEEE double:
  its finite values are rationals, and the only operations the validators apply to a finite
  number (comparison with a constant, \<^verbatim>\<open>Math.floor\<close>) are exact on doubles, so a finite
  number is modelled by the rational it denotes (\<open>-0\<close> and \<open>0\<close> coincide, as they do
  under \<^verbatim>\<open><=\<close>). An object is the list of its own properties in the order
  \<^verbatim>\<open>Object.keys\<close> enumerates them; the keys of an object are distinct.
\<close>

datatype jsnum = Fin rat | NaN | PosInf | NegInf

datatype jsval =
    JUndefined
  | JNull
  | JBool bool
  | JNum jsnum
  | JStr string
  | JArr "jsval list"
  | JObj "(string \<times> jsval) list"

text \<open>A thrown exception: \<^verbatim>\<open>new Error(message)\<close>, or the engine's TypeError.\<close>

datatype exn = Error string | TypeError string

fun message :: "exn \<Rightarrow> string" where
  "message (Error m) = m"
| "message (TypeError m) = m"

text \<open>Property access \<^verbatim>\<open>v.k\<close> on a value that is neither null nor undefined: none of
  the property names the handlers read is defined on a prototype, so every value but an
  object with that own property gives \<^verbatim>\<open>undefined\<close>.\<close>

fun get_prop :: "jsval \<Rightarrow> string \<Rightarrow> jsval" where
  "get_prop (JObj kvs) k = (case map_of kvs k of Some v \<Rightarrow> v | None \<Rightarrow> JUndefined)"
| "get_prop v k = JUndefined"

fun nullish :: "jsval \<Rightarrow> bool" where
  "nullish JUndefined = True"
| "nullish JNull = True"
| "nullish v = False"

text \<open>Truthiness, as \<^verbatim>\<open>if (v)\<close> and \<^verbatim>\<open>!v\<close> test it.\<close>

fun truthy :: "jsval \<Rightarrow> bool" where
  "truthy JUndefined = False"
| "truthy JNull = False"
| "truthy (JBool b) = b"
| "truthy (JNum (Fin q)) = (q \<noteq> 0)"
| "truthy (JNum NaN) = False"
| "truthy (JNum PosInf) = True"
| "truthy (JNum NegInf) = True"
| "truthy (JStr s) = (s \<noteq> [])"
| "truthy (JArr xs) = True"
| "truthy (JObj kvs) = True"

text \<open>\<^verbatim>\<open>typeof v === "object"\<close> holds of objects, arrays and null.\<close>

fun typeof_object :: "jsval \<Rightarrow> bool" where
  "typeof_object (JObj kvs) = True"
| "typeof_object (JArr xs) = True"
| "typeof_object JNull = True"
| "typeof_object v = False"

fun isArray :: "jsval \<Rightarrow> bool" where
  "isArray (JArr xs) = True"
| "isArray v = False"

fun isString :: "jsval \<Rightarrow> bool" where
  "isString (JStr s) = True"
| "isString v = False"

fun elems :: "jsval \<Rightarrow> jsval list" where
  "elems (JArr xs) = xs"
| "elems v = []"

fun str_of :: "jsval \<Rightarrow> string" where
  "str_of (JStr s) = s"
| "str_of v = []"

subsection \<open>Strings\<close>

text \<open>
  A string is the UTF-8 encoding of the JavaScript string. \<^verbatim>\<open>s.trim() === ""\<close> holds
  when \<open>s\<close> is a sequence of white-space code points: those \<^verbatim>\<open>String.prototype.trim\<close>
  strips are the six ASCII ones (U+0009 to U+000D and U+0020), and U+00A0, U+1680, U+2000
  to U+200A, U+2028, U+2029, U+202F, U+205F, U+3000 and U+FEFF, whose encodings take two or
  three bytes.
\<close>

definition is_ascii_ws :: "char \<Rightarrow> bool" where
  "is_ascii_ws c = (c \<in> set [CHR 0x09, CHR 0x0A, CHR 0x0B, CHR 0x0C, CHR 0x0D, CHR 0x20])"

definition ws_codes :: "string list" where
  "ws_codes =
     [[CHR 0xC2, CHR 0xA0],
      [CHR 0xE1, CHR 0x9A, CHR 0x80],
      [CHR 0xE2, CHR 0x80, CHR 0x80], [CHR 0xE2, CHR 0x80, CHR 0x81],
      [CHR 0xE2, CHR 0x80, CHR 0x82], [CHR 0xE2, CHR 0x80, CHR 0x83],
      [CHR 0xE2, CHR 0x80, CHR 0x84], [CHR 0xE2, CHR 0x80, CHR 0x85],
      [CHR 0xE2, CHR 0x80, CHR 0x86], [CHR 0xE2, CHR 0x80, CHR 0x87],
      [CHR 0xE2, CHR 0x80, CHR 0x88], [CHR 0xE2, CHR 0x80, CHR 0x89],
      [CHR 0xE2, CHR 0x80, CHR 0x8A],
      [CHR 0xE2, CHR 0x80, CHR 0xA8], [CHR 0xE2, CHR 0x80, CHR 0xA9],
      [CHR 0xE2, CHR 0x80, CHR 0xAF],
      [CHR 0xE2, CHR 0x81, CHR 0x9F],
      [CHR 0xE3, CHR 0x80, CHR 0x80],
      [CHR 0xEF, CHR 0xBB, CHR 0xBF]]"

fun trim_empty :: "string \<Rightarrow> bool" where
  "trim_empty [] = True"
| "trim_empty [a] = is_ascii_ws a"
| "trim_empty [a, b] = (if is_ascii_ws a then trim_empty [b] else [a, b] \<in> set ws_codes)"
| "trim_empty (a # b # c # rest) =
     (if is_ascii_ws a then trim_empty (b # c # rest)
      else if [a, b] \<in> set ws_codes then trim_empty (c # rest)
      else if [a, b, c] \<in> set ws_codes then trim_empty rest
      else False)"

definition digit_char :: "nat \<Rightarrow> char" where
  "digit_char d = ''0123456789'' ! d"

text \<open>The decimal numeral that a template string prints for an index.\<close>

fun string_of_nat :: "nat \<Rightarrow> string" where
  "string_of_nat n =
     (if n < 10 then [digit_char n] else string_of_nat (n div 10) @ [digit_char (n mod 10)])"

declare string_of_nat.simps [simp del]

definition is_digit :: "char \<Rightarrow> bool" where
  "is_digit c = (c \<in> set ''0123456789'')"

text \<open>The test \<^verbatim>\<open>/^\d+x\d+$/.test(s)\<close>: one or more digits, an \<open>x\<close>, one or more
  digits, and nothing else.\<close>

definition resolution_ok :: "string \<Rightarrow> bool" where
  "resolution_ok s =
     (let w = takeWhile is_digit s; r = dropWhile is_digit s
      in w \<noteq> [] \<and> r \<noteq> [] \<and> hd r = CHR ''x'' \<and> tl r \<noteq> [] \<and> list_all is_digit (tl r))"

text \<open>\<^verbatim>\<open>xs.join(sep)\<close> on strings.\<close>

fun join :: "string \<Rightarrow> string list \<Rightarrow> string" where
  "join sep [] = []"
| "join sep [x] = x"
| "join sep (x # y # ys) = x @ sep @ join sep (y # ys)"

section \<open>Field validators (generate.ts, lines 40-68)\<close>

text \<open>Each validator returns the typed value or the \<^verbatim>\<open>Error\<close> it throws.
  \<^verbatim>\<open>Number.isFinite(v)\<close> is false of every value that is not a number (it does not
  coerce), and of NaN and the infinities; \<^verbatim>\<open>||\<close> then skips the comparisons.\<close>

fun expectString :: "jsval \<Rightarrow> string \<Rightarrow> exn + string" where
  "expectString (JStr s) wh =
     (if trim_empty s then Inl (Error (wh @ '' must be a non-empty string'')) else Inr s)"
| "expectString v wh = Inl (Error (wh @ '' must be a non-empty string''))"

fun expectPositiveInt :: "jsval \<Rightarrow> string \<Rightarrow> exn + rat" where
  "expectPositiveInt (JNum (Fin q)) wh =
     (if q \<le> 0 \<or> of_int \<lfloor>q\<rfloor> \<noteq> q then Inl (Error (wh @ '' must be a positive integer''))
      else Inr q)"
| "expectPositiveInt v wh = Inl (Error (wh @ '' must be a positive integer''))"

fun expectPositiveNumber :: "jsval \<Rightarrow> string \<Rightarrow> exn + rat" where
  "expectPositiveNumber (JNum (Fin q)) wh =
     (if q \<le> 0 then Inl (Error (wh @ '' must be a positive number'')) else Inr q)"
| "expectPositiveNumber v wh = Inl (Error (wh @ '' must be a positive number''))"

fun expectBoolean :: "jsval \<Rightarrow> string \<Rightarrow> exn + bool" where
  "expectBoolean (JBool b) wh = Inr b"
| "expectBoolean v wh = Inl (Error (wh @ '' must be a boolean''))"

section \<open>The outside world\<close>

text \<open>
  Everything a run does to the outside is an \<open>effect\<close>: a directory made, a file written,
  an encoder or an external program run, a line printed. The encoders (pdfkit, docx,
  pptxgenjs, exceljs, csv-writer, sharp, wavefile, ffmpeg, archiver, rar) are collaborators:
  an effect carries what the code hands to them, and what they make of it stays symbolic.
\<close>

type_synonym obj = "(string \<times> jsval) list"

datatype filedata =
    JsonText jsval bool
  | PlainText string
  | DocxDoc "string option list"
  | ImageData jsval jsval
  | WavData rat "jsval option"

datatype effect =
    MkDir string
  | WriteFile string filedata
  | Encode filedata
  | WritePDF string string rat "string option list"
  | WritePPTX string "(string \<times> string option list) list"
  | WriteXLSX string "(string \<times> jsval list option list) list"
  | WriteCSV string "string list" "obj list"
  | Transcode string string
  | EncodeMP4 string rat string rat string rat string string bool
  | WriteZIP string "string list"
  | SpawnRar string "string list"
  | Unlink string
  | Log string
  | LogError string

text \<open>
  The environment fixes what the code cannot decide: whether an external operation fails
  (and with which message) given everything done so far, \<^verbatim>\<open>path.dirname\<close> of Node's
  library, and the values the faker library returns on its \<open>k\<close>-th call.
\<close>

record env =
  fails :: "effect list \<Rightarrow> effect \<Rightarrow> string option"
  dirname :: "string \<Rightarrow> string"
  sentence :: "nat \<Rightarrow> string"
  fullName :: "nat \<Rightarrow> string"
  email :: "nat \<Rightarrow> string"

record world =
  trace :: "effect list"
  faker_calls :: nat

type_synonym 'a result = "(exn + 'a) \<times> world"

definition perform :: "env \<Rightarrow> effect \<Rightarrow> world \<Rightarrow> unit result" where
  "perform env e w =
     (case fails env (trace w) e of
        None \<Rightarrow> (Inr (), w\<lparr>trace := trace w @ [e]\<rparr>)
      | Some m \<Rightarrow> (Inl (Error m), w\<lparr>trace := trace w @ [e]\<rparr>))"

definition emit :: "effect list \<Rightarrow> world \<Rightarrow> world" where
  "emit es w = w\<lparr>trace := trace w @ es\<rparr>"

text \<open>\<^verbatim>\<open>info(msg)\<close> and \<^verbatim>\<open>error(msg, cause)\<close> of generate.ts, lines 25-38: the cause
  is printed when it is an \<^verbatim>\<open>Error\<close> with a stack, which every thrown exception here is.\<close>

definition info :: "string \<Rightarrow> effect list" where
  "info msg = [Log (''[file-fabric] '' @ msg)]"

definition error_lines :: "string \<Rightarrow> exn option \<Rightarrow> effect list" where
  "error_lines msg cause =
     LogError (''[file-fabric] ERROR: '' @ msg)
       # (case cause of None \<Rightarrow> [] | Some e \<Rightarrow> [LogError (''Cause: '' @ message e)])"

text \<open>\<^verbatim>\<open>ensureDirFor(filePath)\<close>, generate.ts lines 71-74.\<close>

definition ensureDirFor :: "env \<Rightarrow> string \<Rightarrow> world \<Rightarrow> unit result" where
  "ensureDirFor env filePath w = perform env (MkDir (dirname env filePath)) w"

definition and_then :: "exn + 'a \<Rightarrow> ('a \<Rightarrow> exn + 'b) \<Rightarrow> exn + 'b" where
  "and_then r f = (case r of Inl e \<Rightarrow> Inl e | Inr x \<Rightarrow> f x)"

definition seq :: "unit result \<Rightarrow> (world \<Rightarrow> unit result) \<Rightarrow> unit result" where
  "seq r f = (case r of (Inl e, w) \<Rightarrow> (Inl e, w) | (Inr u, w) \<Rightarrow> f w)"

section \<open>The document generators (doc\_generators.ts)\<close>

text \<open>
  The source of doc\_generators.ts is lines 179-467 of the file
  \<^verbatim>\<open>src/generators/image_generator.ts\<close> of the source tree. The numbers a generator
  receives are finite (the handlers have checked them), so they are rationals here and
  \<^verbatim>\<open>Number.isFinite\<close> holds of them.

  The counting loop \<^verbatim>\<open>for (let i = 0; i < lines; i++) content.push(f(i))\<close>. The count is
  a number, not necessarily whole: the loop runs while \<open>i < lines\<close>.
\<close>

function push_loop :: "(nat \<Rightarrow> 'a) \<Rightarrow> rat \<Rightarrow> nat \<Rightarrow> 'a list \<Rightarrow> 'a list" where
  "push_loop f lines i content =
     (if of_nat i < lines then push_loop f lines (Suc i) (content @ [f i]) else content)"
  by pat_completeness auto
termination
proof (relation "measure (\<lambda>(f, lines, i, content). nat \<lceil>lines\<rceil> - i)")
  show "wf (measure (\<lambda>(f, lines, i, content). nat \<lceil>lines :: rat\<rceil> - i))"
    by simp
next
  fix f :: "nat \<Rightarrow> 'a" and lines :: rat and i :: nat and content :: "'a list"
  assume "of_nat i < lines"
  then have "int i < \<lceil>lines\<rceil>"
    by (simp add: less_ceiling_iff)
  then show "((f, lines, Suc i, content @ [f i]), (f, lines, i, content))
      \<in> measure (\<lambda>(f, lines, i, content). nat \<lceil>lines\<rceil> - i)"
    by simp
qed

declare push_loop.simps [simp del]

text \<open>\<^verbatim>\<open>texts[i % texts.length]\<close>. With an empty array the remainder is NaN and the read
  gives \<^verbatim>\<open>undefined\<close>, here \<open>None\<close>.\<close>

definition cyclic_pick :: "'a list \<Rightarrow> nat \<Rightarrow> 'a option" where
  "cyclic_pick texts i =
     (if length texts = 0 then None else Some (texts ! (i mod length texts)))"

text \<open>
  The content of a TXT, PDF or DOCX file and of a PPTX slide: the destructuring default
  turns an omitted \<open>texts\<close> into \<open>[]\<close>, filler sentences are drawn when it is empty, and
  the supplied texts are reused cyclically otherwise. The second component is the number
  of faker calls made.
\<close>

definition text_content :: "env \<Rightarrow> rat \<Rightarrow> string list option \<Rightarrow> nat \<Rightarrow> string option list \<times> nat" where
  "text_content env lines texts_opt k =
     (let texts = (case texts_opt of None \<Rightarrow> [] | Some t \<Rightarrow> t)
      in if length texts = 0
         then (let content = push_loop (\<lambda>i. Some (sentence env (k + i))) lines 0 []
               in (content, length content))
         else (push_loop (\<lambda>i. cyclic_pick texts i) lines 0 [], 0))"

definition line_text :: "string option \<Rightarrow> string" where
  "line_text l = (case l of None \<Rightarrow> [] | Some s \<Rightarrow> s)"

definition generateJSON :: "env \<Rightarrow> string \<Rightarrow> bool \<Rightarrow> jsval option \<Rightarrow> world \<Rightarrow> unit result" where
  "generateJSON env path pretty data w =
     (case (case data of None \<Rightarrow> None | Some d \<Rightarrow> if nullish d then None else Some d) of
        None \<Rightarrow>
          perform env
            (WriteFile path
               (JsonText (JObj [(''name'', JStr (fullName env (faker_calls w))),
                                (''email'', JStr (email env (Suc (faker_calls w))))]) pretty))
            (w\<lparr>faker_calls := faker_calls w + 2\<rparr>)
      | Some finalData \<Rightarrow> perform env (WriteFile path (JsonText finalData pretty)) w)"

definition generatePDF ::
  "env \<Rightarrow> string \<Rightarrow> string option \<Rightarrow> rat option \<Rightarrow> rat \<Rightarrow> string list option \<Rightarrow> world \<Rightarrow> unit result" where
  "generatePDF env path title_opt fontSize_opt lines texts w =
     (let title = (case title_opt of None \<Rightarrow> ''Fake PDF'' | Some t \<Rightarrow> t);
          fontSize = (case fontSize_opt of None \<Rightarrow> 20 | Some n \<Rightarrow> n);
          (content, n) = text_content env lines texts (faker_calls w)
      in perform env (WritePDF path title fontSize content)
           (w\<lparr>faker_calls := faker_calls w + n\<rparr>))"

definition generateTXT :: "env \<Rightarrow> string \<Rightarrow> rat \<Rightarrow> string list option \<Rightarrow> world \<Rightarrow> unit result" where
  "generateTXT env path lines texts w =
     (let (content, n) = text_content env lines texts (faker_calls w)
      in perform env (WriteFile path (PlainText (join [CHR 0x0A, CHR 0x0A] (map line_text content))))
           (w\<lparr>faker_calls := faker_calls w + n\<rparr>))"

definition generateDOCX :: "env \<Rightarrow> string \<Rightarrow> rat \<Rightarrow> string list option \<Rightarrow> world \<Rightarrow> unit result" where
  "generateDOCX env path lines texts w =
     (let (content, n) = text_content env lines texts (faker_calls w);
          w1 = w\<lparr>faker_calls := faker_calls w + n\<rparr>
      in seq (perform env (Encode (DocxDoc content)) w1)
           (perform env (WriteFile path (DocxDoc content))))"

text \<open>A slide is its title, its line count and its optional texts; the slides are
  filled in the order \<^verbatim>\<open>Object.entries\<close> gives them, drawing from the same faker.\<close>

type_synonym slide = "string \<times> rat \<times> string list option"

fun slides_content :: "env \<Rightarrow> slide list \<Rightarrow> nat \<Rightarrow> (string \<times> string option list) list \<times> nat" where
  "slides_content env [] k = ([], k)"
| "slides_content env ((slideTitle, lines, texts) # rest) k =
     (let (content, n) = text_content env lines texts k;
          (more, k') = slides_content env rest (k + n)
      in ((slideTitle, content) # more, k'))"

definition generatePPTX :: "env \<Rightarrow> string \<Rightarrow> slide list \<Rightarrow> world \<Rightarrow> unit result" where
  "generatePPTX env path slides w =
     (let (deck, k') = slides_content env slides (faker_calls w)
      in perform env (WritePPTX path deck) (w\<lparr>faker_calls := k'\<rparr>))"

text \<open>A sheet: the header row, then one row per \<open>i < rows\<close>: a faker row (two calls) when
  \<open>texts\<close> is omitted or empty, and \<^verbatim>\<open>texts[i % texts.length]\<close> otherwise.\<close>

type_synonym sheet = "string \<times> rat \<times> jsval list list option"

definition sheet_rows :: "env \<Rightarrow> rat \<Rightarrow> jsval list list option \<Rightarrow> nat \<Rightarrow> jsval list option list \<times> nat" where
  "sheet_rows env rows texts_opt k =
     (let texts = (case texts_opt of None \<Rightarrow> [] | Some t \<Rightarrow> t);
          body = push_loop
            (\<lambda>i. if length texts = 0
                 then Some [JStr (fullName env (k + 2 * i)), JStr (email env (k + 2 * i + 1))]
                 else cyclic_pick texts i)
            rows 0 []
      in (Some [JStr ''Name'', JStr ''Email''] # body,
          if length texts = 0 then 2 * length body else 0))"

fun sheets_content :: "env \<Rightarrow> sheet list \<Rightarrow> nat \<Rightarrow> (string \<times> jsval list option list) list \<times> nat" where
  "sheets_content env [] k = ([], k)"
| "sheets_content env ((sheetName, rows, texts) # rest) k =
     (let (body, n) = sheet_rows env rows texts k;
          (more, k') = sheets_content env rest (k + n)
      in ((sheetName, body) # more, k'))"

definition generateXLSX :: "env \<Rightarrow> string \<Rightarrow> sheet list \<Rightarrow> world \<Rightarrow> unit result" where
  "generateXLSX env path sheets w =
     (let (book, k') = sheets_content env sheets (faker_calls w)
      in perform env (WriteXLSX path book) (w\<lparr>faker_calls := k'\<rparr>))"

text \<open>
  \<^verbatim>\<open>generateCSV\<close>: with a non-empty \<open>data\<close>, every record's keys are compared with the
  keys of the first record (same number, each one among them); otherwise \<open>rows\<close> records
  (default 5) are drawn from the faker. The header is read from the first record, which
  throws when there is none.
\<close>

definition Object_keys :: "obj \<Rightarrow> string list" where
  "Object_keys record = map fst record"

fun check_records :: "string list \<Rightarrow> obj list \<Rightarrow> exn + unit" where
  "check_records keys [] = Inr ()"
| "check_records keys (record # rest) =
     (if length (Object_keys record) \<noteq> length keys
         \<or> \<not> list_all (\<lambda>k. k \<in> set keys) (Object_keys record)
      then Inl (Error ''All records must have the same keys and key count'')
      else check_records keys rest)"

definition fake_records :: "env \<Rightarrow> rat \<Rightarrow> nat \<Rightarrow> obj list" where
  "fake_records env rows k =
     map (\<lambda>i. [(''name'', JStr (fullName env (k + 2 * i))), (''email'', JStr (email env (k + 2 * i + 1)))])
       [0 ..< nat \<lfloor>rows\<rfloor>]"

definition write_records :: "env \<Rightarrow> string \<Rightarrow> obj list \<Rightarrow> world \<Rightarrow> unit result" where
  "write_records env path records w =
     (case records of
        [] \<Rightarrow> (Inl (TypeError ''Cannot convert undefined or null to object''), w)
      | first # rest \<Rightarrow> perform env (WriteCSV path (Object_keys first) records) w)"

definition generateCSV :: "env \<Rightarrow> string \<Rightarrow> rat option \<Rightarrow> obj list option \<Rightarrow> world \<Rightarrow> unit result" where
  "generateCSV env path rows_opt data_opt w =
     (let rows = (case rows_opt of None \<Rightarrow> 5 | Some n \<Rightarrow> n);
          data = (case data_opt of None \<Rightarrow> [] | Some d \<Rightarrow> d)
      in if 0 < length data
         then (case check_records (Object_keys (hd data)) data of
                 Inl e \<Rightarrow> (Inl e, w)
               | Inr u \<Rightarrow> write_records env path data w)
         else (let records = fake_records env rows (faker_calls w)
               in write_records env path records
                    (w\<lparr>faker_calls := faker_calls w + 2 * length records\<rparr>)))"

section \<open>Image, audio, video and archive generators\<close>

text \<open>\<^verbatim>\<open>generateImage\<close>, \<^verbatim>\<open>generateJPG\<close> and \<^verbatim>\<open>generatePNG\<close> (image\_generator.ts, lines
  23-97): sharp renders the image described by \<open>create\<close> and \<open>output\<close> into a buffer,
  which is written to the path.\<close>

definition generateImage :: "env \<Rightarrow> string \<Rightarrow> jsval \<Rightarrow> jsval \<Rightarrow> world \<Rightarrow> unit result" where
  "generateImage env path create output w =
     seq (perform env (Encode (ImageData create output)) w)
       (perform env (WriteFile path (ImageData create output)))"

definition rgb :: "rat \<Rightarrow> rat \<Rightarrow> rat \<Rightarrow> jsval" where
  "rgb r g b = JObj [(''r'', JNum (Fin r)), (''g'', JNum (Fin g)), (''b'', JNum (Fin b))]"

definition generateJPG :: "env \<Rightarrow> string \<Rightarrow> world \<Rightarrow> unit result" where
  "generateJPG env path w =
     generateImage env path
       (JObj [(''width'', JNum (Fin 300)), (''height'', JNum (Fin 200)),
              (''channels'', JNum (Fin 3)), (''background'', rgb 255 0 0)])
       (JObj [(''format'', JStr ''jpeg'')]) w"

definition generatePNG :: "env \<Rightarrow> string \<Rightarrow> world \<Rightarrow> unit result" where
  "generatePNG env path w =
     generateImage env path
       (JObj [(''width'', JNum (Fin 300)), (''height'', JNum (Fin 200)),
              (''channels'', JNum (Fin 3)), (''background'', rgb 0 255 0)])
       (JObj [(''format'', JStr ''png'')]) w"

text \<open>
  \<^verbatim>\<open>generateWAV\<close> (audio\_generator.ts, lines 19-70): the length check, then the samples
  are synthesised and packed (in floating point and with \<^verbatim>\<open>Math.random\<close>: kept symbolic
  as \<open>WavData\<close>), then the file is written.
\<close>

definition generateWAV :: "env \<Rightarrow> string \<Rightarrow> rat \<Rightarrow> jsval option \<Rightarrow> world \<Rightarrow> unit result" where
  "generateWAV env path lengthSeconds opts w =
     (if lengthSeconds \<le> 0 then (Inl (Error ''lengthSeconds must be a positive number.''), w)
      else seq (perform env (Encode (WavData lengthSeconds opts)) w)
             (perform env (WriteFile path (WavData lengthSeconds opts))))"

text \<open>\<^verbatim>\<open>s.replace(pat, rep)\<close> with a string pattern replaces the first occurrence.\<close>

fun replace_first :: "string \<Rightarrow> string \<Rightarrow> string \<Rightarrow> string" where
  "replace_first pat rep [] = (if pat = [] then rep else [])"
| "replace_first pat rep (c # cs) =
     (if prefix pat (c # cs) then rep @ drop (length pat) (c # cs)
      else c # replace_first pat rep cs)"

text \<open>\<^verbatim>\<open>generateMP3\<close> (audio\_generator.ts, lines 72-86).\<close>

definition generateMP3 :: "env \<Rightarrow> string \<Rightarrow> rat \<Rightarrow> jsval option \<Rightarrow> world \<Rightarrow> unit result" where
  "generateMP3 env path lengthSeconds opts w =
     (let wavPath = replace_first ''.mp3'' ''.wav'' path
      in seq (generateWAV env wavPath lengthSeconds opts w)
           (perform env (Transcode wavPath path)))"

text \<open>\<^verbatim>\<open>generateMP4\<close> (video\_generator.ts, lines 27-99): defaults, its own four checks,
  then ffmpeg.\<close>

record video_opts =
  duration :: "rat option"
  resolution :: "string option"
  fps :: "rat option"
  background :: "string option"
  crf :: "rat option"
  pixelFormat :: "string option"
  preset :: "string option"
  silentAudio :: "bool option"

definition dq :: string where
  "dq = [CHR 0x22]"

definition sq :: string where
  "sq = [CHR 0x27]"

definition or_default :: "'a \<Rightarrow> 'a option \<Rightarrow> 'a" where
  "or_default d v = (case v of None \<Rightarrow> d | Some x \<Rightarrow> x)"

definition generateMP4 :: "env \<Rightarrow> string \<Rightarrow> video_opts \<Rightarrow> world \<Rightarrow> unit result" where
  "generateMP4 env path opts w =
     (let duration' = or_default 1 (duration opts);
          resolution' = or_default ''1280x720'' (resolution opts);
          fps' = or_default 30 (fps opts);
          background' = or_default ''black'' (background opts);
          crf' = or_default 23 (crf opts);
          pixelFormat' = or_default ''yuv420p'' (pixelFormat opts);
          preset' = or_default ''medium'' (preset opts);
          silentAudio' = or_default True (silentAudio opts)
      in if duration' \<le> 0
         then (Inl (Error ''duration must be a positive number (seconds).''), w)
         else if \<not> resolution_ok resolution'
         then (Inl (Error (''resolution must be a string like '' @ dq @ ''1280x720'' @ dq @ ''.'')), w)
         else if fps' \<le> 0
         then (Inl (Error ''fps must be a positive number.''), w)
         else if crf' < 0 \<or> 51 < crf'
         then (Inl (Error ''crf must be in [0,51]. Lower is higher quality.''), w)
         else perform env
                (EncodeMP4 path duration' resolution' fps' background' crf' pixelFormat' preset'
                   silentAudio') w)"

text \<open>\<^verbatim>\<open>generateZIP\<close> and \<^verbatim>\<open>generateRAR\<close> (archive\_generator.ts): archiver writes the
  archive; \<^verbatim>\<open>rar a outPath files...\<close> is spawned and fails on a non-zero exit code.\<close>

definition generateZIP :: "env \<Rightarrow> string \<Rightarrow> string list \<Rightarrow> world \<Rightarrow> unit result" where
  "generateZIP env outPath files w = perform env (WriteZIP outPath files) w"

definition generateRAR :: "env \<Rightarrow> string \<Rightarrow> string list \<Rightarrow> string \<Rightarrow> world \<Rightarrow> unit result" where
  "generateRAR env outPath files rarPath w =
     perform env (SpawnRar rarPath (''a'' # outPath # files)) w"

section \<open>Per-kind validation (generate.ts, the first half of each handler's loop body)\<close>

text \<open>
  What a handler hands to its generator once the item's fields have passed: one constructor
  per generator, with the validated and typed fields.
\<close>

datatype gencall =
    CallJSON string bool "jsval option"
  | CallPDF string "string option" "rat option" rat "string list option"
  | CallTXT string rat "string list option"
  | CallDOCX string rat "string list option"
  | CallPPTX string "slide list"
  | CallXLSX string "sheet list"
  | CallCSV string "rat option" "obj list option"
  | CallJPG string
  | CallPNG string
  | CallImage string jsval jsval string
  | CallWAV string rat "jsval option"
  | CallMP3 string rat "jsval option"
  | CallMP4 string video_opts
  | CallZIP string "string list"
  | CallRAR string "string list" string

text \<open>The notices printed while validating (only CSV has one), and the call.\<close>

type_synonym normalized = "string list \<times> gencall"

definition loc :: "string \<Rightarrow> nat \<Rightarrow> string \<Rightarrow> string" where
  "loc section idx field = section @ ''['' @ string_of_nat idx @ ''].'' @ field"

text \<open>The first thing every handler does with an item is to read \<^verbatim>\<open>item.path\<close>, which
  throws a TypeError on null and undefined (the message is V8's).\<close>

definition first_prop :: "jsval \<Rightarrow> string \<Rightarrow> exn + jsval" where
  "first_prop item k =
     (if item = JNull
      then Inl (TypeError (''Cannot read properties of null (reading '' @ sq @ k @ sq @ '')''))
      else if item = JUndefined
      then Inl (TypeError (''Cannot read properties of undefined (reading '' @ sq @ k @ sq @ '')''))
      else Inr (get_prop item k))"

text \<open>\<^verbatim>\<open>v === undefined ? undefined : check(v)\<close>, also written
  \<^verbatim>\<open>if (v !== undefined) opts.k = check(v)\<close>.\<close>

definition optional :: "jsval \<Rightarrow> (jsval \<Rightarrow> exn + 'a) \<Rightarrow> exn + 'a option" where
  "optional v check =
     (if v = JUndefined then Inr None else and_then (check v) (\<lambda>x. Inr (Some x)))"

definition string_array :: "jsval \<Rightarrow> string \<Rightarrow> exn + string list" where
  "string_array v msg =
     (if isArray v \<and> list_all isString (elems v) then Inr (map str_of (elems v))
      else Inl (Error msg))"

text \<open>\<^verbatim>\<open>Object.entries\<close> of an object or an array (the values that pass
  \<^verbatim>\<open>v && typeof v === "object"\<close>).\<close>

fun entries_of :: "jsval \<Rightarrow> obj" where
  "entries_of (JObj kvs) = kvs"
| "entries_of (JArr xs) = zip (map string_of_nat [0 ..< length xs]) xs"
| "entries_of v = []"

definition validateJSON :: "nat \<Rightarrow> jsval \<Rightarrow> exn + normalized" where
  "validateJSON idx item =
     and_then (first_prop item ''path'') (\<lambda>p.
     and_then (expectString p (loc ''json'' idx ''path'')) (\<lambda>outPath.
     and_then (if get_prop item ''pretty'' = JUndefined then Inr True
               else expectBoolean (get_prop item ''pretty'') (loc ''json'' idx ''pretty'')) (\<lambda>pretty.
     and_then (if truthy (get_prop item ''data'') \<and> typeof_object (get_prop item ''data'')
               then Inr (Some (get_prop item ''data''))
               else if get_prop item ''data'' = JUndefined then Inr None
               else Inl (Error (loc ''json'' idx ''data'' @ '' must be an object''))) (\<lambda>data.
     Inr ([], CallJSON outPath pretty data)))))"

definition validatePDF :: "nat \<Rightarrow> jsval \<Rightarrow> exn + normalized" where
  "validatePDF idx item =
     and_then (first_prop item ''path'') (\<lambda>p.
     and_then (expectString p (loc ''pdf'' idx ''path'')) (\<lambda>outPath.
     and_then (optional (get_prop item ''title'') (\<lambda>v. expectString v (loc ''pdf'' idx ''title''))) (\<lambda>title.
     and_then (optional (get_prop item ''fontSize'')
                 (\<lambda>v. expectPositiveInt v (loc ''pdf'' idx ''fontSize''))) (\<lambda>fontSize.
     and_then (expectPositiveInt (get_prop item ''lines'') (loc ''pdf'' idx ''lines'')) (\<lambda>lines.
     and_then (optional (get_prop item ''texts'')
                 (\<lambda>v. string_array v (loc ''pdf'' idx ''texts'' @ '' must be an array of strings''))) (\<lambda>texts.
     Inr ([], CallPDF outPath title fontSize lines texts)))))))"

definition validateTXT :: "nat \<Rightarrow> jsval \<Rightarrow> exn + normalized" where
  "validateTXT idx item =
     and_then (first_prop item ''path'') (\<lambda>p.
     and_then (expectString p (loc ''txt'' idx ''path'')) (\<lambda>outPath.
     and_then (expectPositiveInt (get_prop item ''lines'') (loc ''txt'' idx ''lines'')) (\<lambda>lines.
     and_then (optional (get_prop item ''texts'')
                 (\<lambda>v. string_array v (loc ''txt'' idx ''texts'' @ '' must be an array of strings''))) (\<lambda>texts.
     Inr ([], CallTXT outPath lines texts)))))"

definition validateDOCX :: "nat \<Rightarrow> jsval \<Rightarrow> exn + normalized" where
  "validateDOCX idx item =
     and_then (first_prop item ''path'') (\<lambda>p.
     and_then (expectString p (loc ''docx'' idx ''path'')) (\<lambda>outPath.
     and_then (expectPositiveInt (get_prop item ''lines'') (loc ''docx'' idx ''lines'')) (\<lambda>lines.
     and_then (optional (get_prop item ''texts'')
                 (\<lambda>v. string_array v (loc ''docx'' idx ''texts'' @ '' must be an array of strings''))) (\<lambda>texts.
     Inr ([], CallDOCX outPath lines texts)))))"

text \<open>The slides of a PPTX item are checked one after the other, in entry order.\<close>

fun validate_slides :: "nat \<Rightarrow> obj \<Rightarrow> exn + slide list" where
  "validate_slides idx [] = Inr []"
| "validate_slides idx ((key, val) # rest) =
     (let here = ''pptx['' @ string_of_nat idx @ ''].slides['' @ dq @ key @ dq @ '']''
      in if \<not> truthy val \<or> \<not> typeof_object val then Inl (Error (here @ '' must be an object''))
         else and_then (expectPositiveInt (get_prop val ''lines'') (here @ ''.lines'')) (\<lambda>lines.
              and_then (optional (get_prop val ''texts'')
                          (\<lambda>v. string_array v (here @ ''.texts must be an array of strings''))) (\<lambda>texts.
              and_then (validate_slides idx rest) (\<lambda>more.
              Inr ((key, lines, texts) # more)))))"

definition validatePPTX :: "nat \<Rightarrow> jsval \<Rightarrow> exn + normalized" where
  "validatePPTX idx item =
     and_then (first_prop item ''path'') (\<lambda>p.
     and_then (expectString p (loc ''pptx'' idx ''path'')) (\<lambda>outPath.
     if \<not> truthy (get_prop item ''slides'') \<or> \<not> typeof_object (get_prop item ''slides'')
     then Inl (Error (loc ''pptx'' idx ''slides''
            @ '' must be an object of { [slideTitle]: { lines: number; texts?: string[] } }''))
     else and_then (validate_slides idx (entries_of (get_prop item ''slides''))) (\<lambda>slides.
          Inr ([], CallPPTX outPath slides))))"

definition rows_array :: "jsval \<Rightarrow> string \<Rightarrow> exn + jsval list list" where
  "rows_array v msg =
     (if isArray v \<and> list_all isArray (elems v) then Inr (map elems (elems v))
      else Inl (Error msg))"

fun validate_sheets :: "nat \<Rightarrow> obj \<Rightarrow> exn + sheet list" where
  "validate_sheets idx [] = Inr []"
| "validate_sheets idx ((sheetName, sheetOpts) # rest) =
     (let here = ''xlsx['' @ string_of_nat idx @ ''].sheets['' @ dq @ sheetName @ dq @ '']''
      in if \<not> truthy sheetOpts \<or> \<not> typeof_object sheetOpts
         then Inl (Error (here @ '' must be an object''))
         else and_then (expectPositiveInt (get_prop sheetOpts ''rows'') (here @ ''.rows'')) (\<lambda>rows.
              and_then (optional (get_prop sheetOpts ''texts'')
                          (\<lambda>v. rows_array v (here @ ''.texts must be string[][]''))) (\<lambda>texts.
              and_then (validate_sheets idx rest) (\<lambda>more.
              Inr ((sheetName, rows, texts) # more)))))"

definition validateXLSX :: "nat \<Rightarrow> jsval \<Rightarrow> exn + normalized" where
  "validateXLSX idx item =
     and_then (first_prop item ''path'') (\<lambda>p.
     and_then (expectString p (loc ''xlsx'' idx ''path'')) (\<lambda>outPath.
     if \<not> truthy (get_prop item ''sheets'') \<or> \<not> typeof_object (get_prop item ''sheets'')
     then Inl (Error (loc ''xlsx'' idx ''sheets''
            @ '' must be an object of { [sheetName]: { rows: number; texts?: string[][] } }''))
     else and_then (validate_sheets idx (entries_of (get_prop item ''sheets''))) (\<lambda>sheets.
          Inr ([], CallXLSX outPath sheets))))"

definition object_array :: "jsval \<Rightarrow> string \<Rightarrow> exn + obj list" where
  "object_array v msg =
     (if isArray v \<and> list_all (\<lambda>r. truthy r \<and> typeof_object r) (elems v)
      then Inr (map entries_of (elems v))
      else Inl (Error msg))"

definition csv_notice :: "nat \<Rightarrow> string" where
  "csv_notice idx =
     ''csv['' @ string_of_nat idx @ '']: '' @ sq @ ''data'' @ sq @ '' provided, ''
       @ sq @ ''rows'' @ sq @ '' will be ignored.''"

definition validateCSV :: "nat \<Rightarrow> jsval \<Rightarrow> exn + normalized" where
  "validateCSV idx item =
     and_then (first_prop item ''path'') (\<lambda>p.
     and_then (expectString p (loc ''csv'' idx ''path'')) (\<lambda>outPath.
     and_then (optional (get_prop item ''rows'') (\<lambda>v. expectPositiveInt v (loc ''csv'' idx ''rows''))) (\<lambda>rows.
     and_then (optional (get_prop item ''data'')
                 (\<lambda>v. object_array v (loc ''csv'' idx ''data'' @ '' must be an array of objects''))) (\<lambda>data.
     Inr (if rows \<noteq> None \<and> data \<noteq> None then [csv_notice idx] else [],
          CallCSV outPath rows data)))))"

definition validateJPG :: "nat \<Rightarrow> jsval \<Rightarrow> exn + normalized" where
  "validateJPG idx item =
     and_then (first_prop item ''path'') (\<lambda>p.
     and_then (expectString p (loc ''images.jpg'' idx ''path'')) (\<lambda>outPath.
     Inr ([], CallJPG outPath)))"

definition validatePNG :: "nat \<Rightarrow> jsval \<Rightarrow> exn + normalized" where
  "validatePNG idx item =
     and_then (first_prop item ''path'') (\<lambda>p.
     and_then (expectString p (loc ''images.png'' idx ''path'')) (\<lambda>outPath.
     Inr ([], CallPNG outPath)))"

definition image_formats :: "string list" where
  "image_formats = [''jpeg'', ''png'', ''webp'', ''avif'', ''tiff'', ''gif'', ''heif'']"

definition validateCustom :: "nat \<Rightarrow> jsval \<Rightarrow> exn + normalized" where
  "validateCustom idx item =
     and_then (first_prop item ''path'') (\<lambda>p.
     and_then (expectString p (loc ''images.custom'' idx ''path'')) (\<lambda>outPath.
     let create = get_prop item ''create''; output = get_prop item ''output''
     in if \<not> truthy create \<or> \<not> typeof_object create
        then Inl (Error (loc ''images.custom'' idx ''create'' @ '' must be an object''))
        else if \<not> truthy output \<or> \<not> typeof_object output
        then Inl (Error (loc ''images.custom'' idx ''output'' @ '' must be an object''))
        else
     and_then (expectPositiveInt (get_prop create ''width'') (loc ''images.custom'' idx ''create.width'')) (\<lambda>width.
     and_then (expectPositiveInt (get_prop create ''height'') (loc ''images.custom'' idx ''create.height'')) (\<lambda>height.
     if \<not> isString (get_prop output ''format'')
     then Inl (Error (loc ''images.custom'' idx ''output.format'' @ '' must be a string''))
     else if str_of (get_prop output ''format'') \<notin> set image_formats
     then Inl (Error (loc ''images.custom'' idx ''output.format'' @ '' must be one of ''
                 @ join '', '' image_formats))
     else Inr ([], CallImage outPath create output (str_of (get_prop output ''format'')))))))"

definition audio_opts :: "jsval \<Rightarrow> jsval option" where
  "audio_opts v = (if truthy v \<and> typeof_object v then Some v else None)"

definition validateWAV :: "nat \<Rightarrow> jsval \<Rightarrow> exn + normalized" where
  "validateWAV idx item =
     and_then (first_prop item ''path'') (\<lambda>p.
     and_then (expectString p (loc ''audio.wav'' idx ''path'')) (\<lambda>outPath.
     and_then (expectPositiveNumber (get_prop item ''lengthSeconds'')
                 (loc ''audio.wav'' idx ''lengthSeconds'')) (\<lambda>lengthSeconds.
     Inr ([], CallWAV outPath lengthSeconds (audio_opts (get_prop item ''opts''))))))"

definition validateMP3 :: "nat \<Rightarrow> jsval \<Rightarrow> exn + normalized" where
  "validateMP3 idx item =
     and_then (first_prop item ''path'') (\<lambda>p.
     and_then (expectString p (loc ''audio.mp3'' idx ''path'')) (\<lambda>outPath.
     and_then (expectPositiveNumber (get_prop item ''lengthSeconds'')
                 (loc ''audio.mp3'' idx ''lengthSeconds'')) (\<lambda>lengthSeconds.
     Inr ([], CallMP3 outPath lengthSeconds (audio_opts (get_prop item ''opts''))))))"

definition pixel_formats :: "string list" where
  "pixel_formats = [''yuv420p'', ''yuv422p'', ''yuv444p'']"

definition presets :: "string list" where
  "presets = [''ultrafast'', ''superfast'', ''veryfast'', ''faster'', ''fast'', ''medium'',
              ''slow'', ''slower'', ''veryslow'']"

text \<open>The check of the \<open>crf\<close> field, generate.ts lines 382-386 (and server.ts lines
  248-252 with the same two steps).\<close>

definition check_crf :: "jsval \<Rightarrow> string \<Rightarrow> exn + rat" where
  "check_crf v wh =
     and_then (expectPositiveNumber v wh) (\<lambda>crf.
     if crf < 0 \<or> 51 < crf then Inl (Error (wh @ '' must be within [0,51]'')) else Inr crf)"

definition one_of :: "string list \<Rightarrow> jsval \<Rightarrow> string \<Rightarrow> exn + string" where
  "one_of allowed v wh =
     and_then (expectString v wh) (\<lambda>x.
     if x \<notin> set allowed then Inl (Error (wh @ '' must be one of '' @ join '', '' allowed))
     else Inr x)"

definition validateVideo :: "nat \<Rightarrow> jsval \<Rightarrow> exn + normalized" where
  "validateVideo idx item =
     and_then (first_prop item ''path'') (\<lambda>p.
     and_then (expectString p (loc ''video'' idx ''path'')) (\<lambda>outPath.
     and_then (optional (get_prop item ''duration'')
                 (\<lambda>v. expectPositiveNumber v (loc ''video'' idx ''duration''))) (\<lambda>duration'.
     and_then (optional (get_prop item ''resolution'')
                 (\<lambda>v. and_then (expectString v (loc ''video'' idx ''resolution'')) (\<lambda>res.
                      if \<not> resolution_ok res
                      then Inl (Error (loc ''video'' idx ''resolution'' @ '' must be ''
                                 @ dq @ ''WIDTHxHEIGHT'' @ dq))
                      else Inr res))) (\<lambda>resolution'.
     and_then (optional (get_prop item ''fps'')
                 (\<lambda>v. expectPositiveNumber v (loc ''video'' idx ''fps''))) (\<lambda>fps'.
     and_then (optional (get_prop item ''background'')
                 (\<lambda>v. expectString v (loc ''video'' idx ''background''))) (\<lambda>background'.
     and_then (optional (get_prop item ''crf'') (\<lambda>v. check_crf v (loc ''video'' idx ''crf''))) (\<lambda>crf'.
     and_then (optional (get_prop item ''pixelFormat'')
                 (\<lambda>v. one_of pixel_formats v (loc ''video'' idx ''pixelFormat''))) (\<lambda>pixelFormat'.
     and_then (optional (get_prop item ''preset'')
                 (\<lambda>v. one_of presets v (loc ''video'' idx ''preset''))) (\<lambda>preset'.
     and_then (optional (get_prop item ''silentAudio'')
                 (\<lambda>v. expectBoolean v (loc ''video'' idx ''silentAudio''))) (\<lambda>silentAudio'.
     Inr ([], CallMP4 outPath
            \<lparr>duration = duration', resolution = resolution', fps = fps',
             background = background', crf = crf', pixelFormat = pixelFormat',
             preset = preset', silentAudio = silentAudio'\<rparr>)))))))))))"

definition validateZIP :: "nat \<Rightarrow> jsval \<Rightarrow> exn + normalized" where
  "validateZIP idx item =
     and_then (first_prop item ''path'') (\<lambda>p.
     and_then (expectString p (loc ''archives.zip'' idx ''path'')) (\<lambda>outPath.
     and_then (string_array (get_prop item ''files'')
                 (loc ''archives.zip'' idx ''files'' @ '' must be an array of file paths'')) (\<lambda>files.
     Inr ([], CallZIP outPath files))))"

definition validateRAR :: "nat \<Rightarrow> jsval \<Rightarrow> exn + normalized" where
  "validateRAR idx item =
     and_then (first_prop item ''path'') (\<lambda>p.
     and_then (expectString p (loc ''archives.rar'' idx ''path'')) (\<lambda>outPath.
     and_then (string_array (get_prop item ''files'')
                 (loc ''archives.rar'' idx ''files'' @ '' must be an array of file paths'')) (\<lambda>files.
     and_then (if get_prop item ''rarPath'' = JUndefined then Inr ''rar''
               else expectString (get_prop item ''rarPath'') (loc ''archives.rar'' idx ''rarPath'')) (\<lambda>rarPath.
     Inr ([], CallRAR outPath files rarPath)))))"

section \<open>The handlers and the orchestrator (generate.ts, lines 92-482)\<close>

text \<open>
  The fifteen item loops of generate.ts have one shape:
  \<^verbatim>\<open>for (const [idx, item] of items.entries()) { try { validate the fields;
  ensureDirFor(outPath); await generate(...); info(...) } catch (e) { error(label, e);
  [error(hint);] throw e } }\<close>.
  \<open>kind\<close> names the loop, \<open>validate\<close> is its first half, and \<open>generate\<close> the call it makes.
\<close>

datatype kind =
    KJson | KPdf | KTxt | KDocx | KPptx | KXlsx | KCsv
  | KJpg | KPng | KCustom | KWav | KMp3 | KVideo | KZip | KRar

fun validate :: "kind \<Rightarrow> nat \<Rightarrow> jsval \<Rightarrow> exn + normalized" where
  "validate KJson = validateJSON"
| "validate KPdf = validatePDF"
| "validate KTxt = validateTXT"
| "validate KDocx = validateDOCX"
| "validate KPptx = validatePPTX"
| "validate KXlsx = validateXLSX"
| "validate KCsv = validateCSV"
| "validate KJpg = validateJPG"
| "validate KPng = validatePNG"
| "validate KCustom = validateCustom"
| "validate KWav = validateWAV"
| "validate KMp3 = validateMP3"
| "validate KVideo = validateVideo"
| "validate KZip = validateZIP"
| "validate KRar = validateRAR"

fun fail_label :: "kind \<Rightarrow> string" where
  "fail_label KJson = ''JSON''"
| "fail_label KPdf = ''PDF''"
| "fail_label KTxt = ''TXT''"
| "fail_label KDocx = ''DOCX''"
| "fail_label KPptx = ''PPTX''"
| "fail_label KXlsx = ''XLSX''"
| "fail_label KCsv = ''CSV''"
| "fail_label KJpg = ''JPG''"
| "fail_label KPng = ''PNG''"
| "fail_label KCustom = ''Custom image''"
| "fail_label KWav = ''WAV''"
| "fail_label KMp3 = ''MP3''"
| "fail_label KVideo = ''Video''"
| "fail_label KZip = ''ZIP''"
| "fail_label KRar = ''RAR''"

fun hint :: "kind \<Rightarrow> string option" where
  "hint KMp3 = Some ''Hint: MP3 requires ffmpeg (provided via ffmpeg-static on supported platforms).''"
| "hint KVideo = Some ''Hint: MP4 requires ffmpeg (provided via ffmpeg-static on supported platforms).''"
| "hint KRar = Some (''Hint: RAR requires a system '' @ sq @ ''rar'' @ sq
      @ '' CLI installed and accessible in PATH or via '' @ sq @ ''rarPath'' @ sq @ ''.'')"
| "hint k = None"

fun call_path :: "gencall \<Rightarrow> string" where
  "call_path (CallJSON p pretty data) = p"
| "call_path (CallPDF p title fontSize lines texts) = p"
| "call_path (CallTXT p lines texts) = p"
| "call_path (CallDOCX p lines texts) = p"
| "call_path (CallPPTX p slides) = p"
| "call_path (CallXLSX p sheets) = p"
| "call_path (CallCSV p rows data) = p"
| "call_path (CallJPG p) = p"
| "call_path (CallPNG p) = p"
| "call_path (CallImage p create output format) = p"
| "call_path (CallWAV p lengthSeconds opts) = p"
| "call_path (CallMP3 p lengthSeconds opts) = p"
| "call_path (CallMP4 p opts) = p"
| "call_path (CallZIP p files) = p"
| "call_path (CallRAR p files rarPath) = p"

fun generate :: "env \<Rightarrow> gencall \<Rightarrow> world \<Rightarrow> unit result" where
  "generate env (CallJSON p pretty data) = generateJSON env p pretty data"
| "generate env (CallPDF p title fontSize lines texts) = generatePDF env p title fontSize lines texts"
| "generate env (CallTXT p lines texts) = generateTXT env p lines texts"
| "generate env (CallDOCX p lines texts) = generateDOCX env p lines texts"
| "generate env (CallPPTX p slides) = generatePPTX env p slides"
| "generate env (CallXLSX p sheets) = generateXLSX env p sheets"
| "generate env (CallCSV p rows data) = generateCSV env p rows data"
| "generate env (CallJPG p) = generateJPG env p"
| "generate env (CallPNG p) = generatePNG env p"
| "generate env (CallImage p create output format) = generateImage env p create output"
| "generate env (CallWAV p lengthSeconds opts) = generateWAV env p lengthSeconds opts"
| "generate env (CallMP3 p lengthSeconds opts) = generateMP3 env p lengthSeconds opts"
| "generate env (CallMP4 p opts) = generateMP4 env p opts"
| "generate env (CallZIP p files) = generateZIP env p files"
| "generate env (CallRAR p files rarPath) = generateRAR env p files rarPath"

definition arrow :: string where
  "arrow = [CHR 0xE2, CHR 0x86, CHR 0x92]"

fun done_label :: "gencall \<Rightarrow> string" where
  "done_label (CallJSON p pretty data) = ''JSON''"
| "done_label (CallPDF p title fontSize lines texts) = ''PDF''"
| "done_label (CallTXT p lines texts) = ''TXT''"
| "done_label (CallDOCX p lines texts) = ''DOCX''"
| "done_label (CallPPTX p slides) = ''PPTX''"
| "done_label (CallXLSX p sheets) = ''XLSX''"
| "done_label (CallCSV p rows data) = ''CSV''"
| "done_label (CallJPG p) = ''JPG''"
| "done_label (CallPNG p) = ''PNG''"
| "done_label (CallImage p create output format) = ''image ('' @ format @ '')''"
| "done_label (CallWAV p lengthSeconds opts) = ''WAV''"
| "done_label (CallMP3 p lengthSeconds opts) = ''MP3''"
| "done_label (CallMP4 p opts) = ''MP4''"
| "done_label (CallZIP p files) = ''ZIP''"
| "done_label (CallRAR p files rarPath) = ''RAR''"

definition failure_lines :: "kind \<Rightarrow> nat \<Rightarrow> exn \<Rightarrow> effect list" where
  "failure_lines k idx e =
     error_lines (fail_label k @ '' generation failed at index '' @ string_of_nat idx) (Some e)
       @ (case hint k of None \<Rightarrow> [] | Some h \<Rightarrow> error_lines h None)"

text \<open>One turn of an item loop: the body of the \<^verbatim>\<open>try\<close> and the \<^verbatim>\<open>catch\<close>.\<close>

definition handle_item :: "env \<Rightarrow> kind \<Rightarrow> nat \<Rightarrow> jsval \<Rightarrow> world \<Rightarrow> unit result" where
  "handle_item env k idx item w =
     (case validate k idx item of
        Inl e \<Rightarrow> (Inl e, emit (failure_lines k idx e) w)
      | Inr (notices, call) \<Rightarrow>
          (case seq (ensureDirFor env (call_path call) (emit (concat (map info notices)) w))
                  (generate env call) of
             (Inl e, w') \<Rightarrow> (Inl e, emit (failure_lines k idx e) w')
           | (Inr u, w') \<Rightarrow>
               (Inr (), emit (info (''Generated '' @ done_label call @ '' '' @ arrow @ '' ''
                                     @ call_path call)) w')))"

text \<open>The loop: a thrown exception leaves it, and the handler, at once.\<close>

fun handle_items :: "env \<Rightarrow> kind \<Rightarrow> nat \<Rightarrow> jsval list \<Rightarrow> world \<Rightarrow> unit result" where
  "handle_items env k idx [] w = (Inr (), w)"
| "handle_items env k idx (item # rest) w =
     (case handle_item env k idx item w of
        (Inl e, w') \<Rightarrow> (Inl e, w')
      | (Inr u, w') \<Rightarrow> handle_items env k (Suc idx) rest w')"

text \<open>\<^verbatim>\<open>Array.isArray(cfg) ? cfg : [cfg]\<close>.\<close>

definition items_of :: "jsval \<Rightarrow> jsval list" where
  "items_of cfg = (if isArray cfg then elems cfg else [cfg])"

definition handle_section :: "env \<Rightarrow> kind \<Rightarrow> jsval \<Rightarrow> world \<Rightarrow> unit result" where
  "handle_section env k cfg w = handle_items env k 0 (items_of cfg) w"

definition handleJSON :: "env \<Rightarrow> jsval \<Rightarrow> world \<Rightarrow> unit result" where
  "handleJSON env cfg w = handle_section env KJson cfg w"

definition handlePDF :: "env \<Rightarrow> jsval \<Rightarrow> world \<Rightarrow> unit result" where
  "handlePDF env cfg w = handle_section env KPdf cfg w"

definition handleTXT :: "env \<Rightarrow> jsval \<Rightarrow> world \<Rightarrow> unit result" where
  "handleTXT env cfg w = handle_section env KTxt cfg w"

definition handleDOCX :: "env \<Rightarrow> jsval \<Rightarrow> world \<Rightarrow> unit result" where
  "handleDOCX env cfg w = handle_section env KDocx cfg w"

definition handlePPTX :: "env \<Rightarrow> jsval \<Rightarrow> world \<Rightarrow> unit result" where
  "handlePPTX env cfg w = handle_section env KPptx cfg w"

definition handleXLSX :: "env \<Rightarrow> jsval \<Rightarrow> world \<Rightarrow> unit result" where
  "handleXLSX env cfg w = handle_section env KXlsx cfg w"

definition handleCSV :: "env \<Rightarrow> jsval \<Rightarrow> world \<Rightarrow> unit result" where
  "handleCSV env cfg w = handle_section env KCsv cfg w"

definition handleVideo :: "env \<Rightarrow> jsval \<Rightarrow> world \<Rightarrow> unit result" where
  "handleVideo env cfg w = handle_section env KVideo cfg w"

text \<open>A sub-section \<^verbatim>\<open>if (cfg.jpg) { ... }\<close> of a composite handler.\<close>

definition handle_sub :: "env \<Rightarrow> kind \<Rightarrow> jsval \<Rightarrow> world \<Rightarrow> unit result" where
  "handle_sub env k v w = (if truthy v then handle_section env k v w else (Inr (), w))"

definition handleImages :: "env \<Rightarrow> jsval \<Rightarrow> world \<Rightarrow> unit result" where
  "handleImages env cfg w =
     seq (handle_sub env KJpg (get_prop cfg ''jpg'') w) (\<lambda>w1.
     seq (handle_sub env KPng (get_prop cfg ''png'') w1)
       (handle_sub env KCustom (get_prop cfg ''custom'')))"

definition handleAudio :: "env \<Rightarrow> jsval \<Rightarrow> world \<Rightarrow> unit result" where
  "handleAudio env cfg w =
     seq (handle_sub env KWav (get_prop cfg ''wav'') w)
       (handle_sub env KMp3 (get_prop cfg ''mp3''))"

definition handleArchives :: "env \<Rightarrow> jsval \<Rightarrow> world \<Rightarrow> unit result" where
  "handleArchives env cfg w =
     seq (handle_sub env KZip (get_prop cfg ''zip'') w)
       (handle_sub env KRar (get_prop cfg ''rar''))"

text \<open>
  \<^verbatim>\<open>runFromConfig\<close> on the parsed plan: the output directory, then the eleven lines
  \<^verbatim>\<open>if (cfg.key) await handleKey(cfg.key)\<close> in their order, then \<^verbatim>\<open>info("Done.")\<close>.
  The \<^verbatim>\<open>catch\<close> around them rethrows. The plan is the value \<^verbatim>\<open>loadYaml\<close> returned;
  \<^verbatim>\<open>main\<close> turns a thrown exception into exit code 1.
\<close>

definition sections :: "(string \<times> (env \<Rightarrow> jsval \<Rightarrow> world \<Rightarrow> unit result)) list" where
  "sections =
     [(''json'', handleJSON), (''pdf'', handlePDF), (''txt'', handleTXT), (''docx'', handleDOCX),
      (''pptx'', handlePPTX), (''xlsx'', handleXLSX), (''csv'', handleCSV),
      (''images'', handleImages), (''audio'', handleAudio), (''video'', handleVideo),
      (''archives'', handleArchives)]"

definition run_section ::
  "env \<Rightarrow> jsval \<Rightarrow> string \<times> (env \<Rightarrow> jsval \<Rightarrow> world \<Rightarrow> unit result) \<Rightarrow> world \<Rightarrow> unit result" where
  "run_section env cfg s w =
     (if truthy (get_prop cfg (fst s)) then (snd s) env (get_prop cfg (fst s)) w else (Inr (), w))"

fun run_sections ::
  "env \<Rightarrow> jsval \<Rightarrow> (string \<times> (env \<Rightarrow> jsval \<Rightarrow> world \<Rightarrow> unit result)) list \<Rightarrow> world \<Rightarrow> unit result" where
  "run_sections env cfg [] w = (Inr (), w)"
| "run_sections env cfg (s # rest) w =
     (case run_section env cfg s w of
        (Inl e, w') \<Rightarrow> (Inl e, w')
      | (Inr u, w') \<Rightarrow> run_sections env cfg rest w')"

definition ensure_outputDir :: "env \<Rightarrow> jsval \<Rightarrow> world \<Rightarrow> unit result" where
  "ensure_outputDir env cfg w =
     (let d = get_prop cfg ''outputDir''
      in if truthy d \<and> isString d \<and> \<not> trim_empty (str_of d)
         then (case perform env (MkDir (str_of d)) w of
                 (Inl e, w') \<Rightarrow> (Inl e, w')
               | (Inr u, w') \<Rightarrow> (Inr (), emit (info (''Ensured outputDir: '' @ str_of d)) w'))
         else (Inr (), w))"

definition runFromConfig :: "env \<Rightarrow> jsval \<Rightarrow> world \<Rightarrow> unit result" where
  "runFromConfig env cfg w =
     seq (ensure_outputDir env cfg w) (\<lambda>w1.
     (case run_sections env cfg sections w1 of
        (Inl e, w2) \<Rightarrow> (Inl e, w2)
      | (Inr u, w2) \<Rightarrow> (Inr (), emit (info ''Done.'') w2)))"

section \<open>Reading a trace, and an environment for the examples\<close>

text \<open>The effects that only print.\<close>

fun is_print :: "effect \<Rightarrow> bool" where
  "is_print (Log m) = True"
| "is_print (LogError m) = True"
| "is_print e = False"

text \<open>
  The examples run in an environment where no external operation fails and the faker
  returns fixed values. Its \<open>dirname\<close> is the text before the last slash (\<open>.\<close> when
  there is none), which is what \<^verbatim>\<open>path.dirname\<close> returns on the paths the examples use.
\<close>

definition simple_dirname :: "string \<Rightarrow> string" where
  "simple_dirname p =
     (let d = rev (dropWhile (\<lambda>c. c \<noteq> CHR ''/'') (rev p))
      in if d = [] then ''.'' else if butlast d = [] then ''/'' else butlast d)"

definition quiet_env :: env where
  "quiet_env =
     \<lparr>fails = (\<lambda>tr e. None), dirname = simple_dirname,
      sentence = (\<lambda>k. ''Lorem ipsum.''), fullName = (\<lambda>k. ''Ada Lovelace''),
      email = (\<lambda>k. ''ada@example.com'')\<rparr>"

definition start :: world where
  "start = \<lparr>trace = [], faker_calls = 0\<rparr>"

text \<open>A plan whose second TXT item is malformed, followed by a DOCX section.\<close>

definition ex_txt_ok :: jsval where
  "ex_txt_ok = JObj [(''path'', JStr ''a.txt''), (''lines'', JNum (Fin 2)), (''texts'', JArr [JStr ''x''])]"

definition ex_txt_bad :: jsval where
  "ex_txt_bad = JObj [(''path'', JStr ''b.txt''), (''lines'', JNum (Fin 0))]"

definition ex_txt_late :: jsval where
  "ex_txt_late = JObj [(''path'', JStr ''c.txt''), (''lines'', JNum (Fin 1))]"

definition ex_plan :: jsval where
  "ex_plan =
     JObj [(''txt'', JArr [ex_txt_ok, ex_txt_bad, ex_txt_late]),
           (''docx'', JObj [(''path'', JStr ''d.docx''), (''lines'', JNum (Fin 1))])]"

text \<open>An environment without ffmpeg, and a plan whose first MP3 item needs it.\<close>

definition no_ffmpeg_env :: env where
  "no_ffmpeg_env =
     \<lparr>fails = (\<lambda>tr e. case e of Transcode a b \<Rightarrow> Some ''spawn ffmpeg ENOENT'' | _ \<Rightarrow> None),
      dirname = simple_dirname,
      sentence = (\<lambda>k. ''Lorem ipsum.''), fullName = (\<lambda>k. ''Ada Lovelace''),
      email = (\<lambda>k. ''ada@example.com'')\<rparr>"

definition ex_mp3 :: jsval where
  "ex_mp3 = JObj [(''path'', JStr ''a.mp3''), (''lengthSeconds'', JNum (Fin 1))]"

definition ex_mp3_late :: jsval where
  "ex_mp3_late = JObj [(''path'', JStr ''b.mp3''), (''lengthSeconds'', JNum (Fin 1))]"

definition ex_audio_plan :: jsval where
  "ex_audio_plan =
     JObj [(''audio'', JObj [(''mp3'', JArr [ex_mp3, ex_mp3_late])]),
           (''video'', JObj [(''path'', JStr ''v.mp4'')])]"

text \<open>The CSV request of the specification's fourth scenario, with an output path.\<close>

definition ex_csv :: jsval where
  "ex_csv =
     JObj [(''path'', JStr ''out/data.csv''), (''rows'', JNum (Fin 5)),
           (''data'', JArr [JObj [(''a'', JNum (Fin 1))]])]"

section \<open>Auxiliary facts\<close>

lemma string_of_nat_0 [simp]: "string_of_nat 0 = ''0''"
  by (simp add: string_of_nat.simps digit_char_def)

lemma string_of_nat_1 [simp]: "string_of_nat (Suc 0) = ''1''"
  by (simp add: string_of_nat.simps digit_char_def)

text \<open>A string of white-space code points, such as a lone no-break space (U+00A0), is
  empty once trimmed, and \<open>expectString\<close> rejects it.\<close>

lemma trim_empty_examples:
  "trim_empty [CHR 0xC2, CHR 0xA0]
   \<and> trim_empty [CHR 0x20, CHR 0xE2, CHR 0x80, CHR 0xA8, CHR 0x09]
   \<and> trim_empty [CHR 0xEF, CHR 0xBB, CHR 0xBF]
   \<and> \<not> trim_empty '' a ''
   \<and> \<not> trim_empty [CHR 0xC2, CHR 0xA1]
   \<and> expectString (JStr [CHR 0xC2, CHR 0xA0]) wh = Inl (Error (wh @ '' must be a non-empty string''))"
  by (simp add: is_ascii_ws_def ws_codes_def)

text \<open>The counting loop appends \<open>f i\<close> for every natural number \<open>i\<close> below the count.\<close>

lemma push_loop_eq:
  "push_loop f lines i content = content @ map f [i ..< nat \<lceil>lines\<rceil>]"
proof (induction f lines i content rule: push_loop.induct)
  case (1 f lines i content)
  show ?case
  proof (cases "of_nat i < lines")
    case True
    then have "int i < \<lceil>lines\<rceil>"
      by (simp add: less_ceiling_iff)
    then have lt: "i < nat \<lceil>lines\<rceil>"
      by simp
    have "push_loop f lines i content = push_loop f lines (Suc i) (content @ [f i])"
      using True by (subst push_loop.simps) simp
    also have "\<dots> = (content @ [f i]) @ map f [Suc i ..< nat \<lceil>lines\<rceil>]"
      using "1.IH" [OF True] .
    also have "\<dots> = content @ map f [i ..< nat \<lceil>lines\<rceil>]"
      using lt by (simp add: upt_conv_Cons)
    finally show ?thesis .
  next
    case False
    then have "\<lceil>lines\<rceil> \<le> int i"
      by (simp add: ceiling_le_iff)
    then have "nat \<lceil>lines\<rceil> \<le> i"
      by simp
    moreover have "push_loop f lines i content = content"
      using False by (subst push_loop.simps) simp
    ultimately show ?thesis
      by simp
  qed
qed

lemma text_content_cycle:
  "texts \<noteq> [] \<Longrightarrow>
   text_content env lines (Some texts) k =
     (map (\<lambda>i. Some (texts ! (i mod length texts))) [0 ..< nat \<lceil>lines\<rceil>], 0)"
  by (simp add: text_content_def push_loop_eq cyclic_pick_def)

lemma text_content_filler:
  "texts_opt = None \<or> texts_opt = Some [] \<Longrightarrow>
   text_content env lines texts_opt k =
     (map (\<lambda>i. Some (sentence env (k + i))) [0 ..< nat \<lceil>lines\<rceil>], nat \<lceil>lines\<rceil>)"
  by (auto simp add: text_content_def push_loop_eq Let_def)

lemma sheet_rows_cycle:
  "texts \<noteq> [] \<Longrightarrow>
   sheet_rows env rows (Some texts) k =
     (Some [JStr ''Name'', JStr ''Email'']
        # map (\<lambda>i. Some (texts ! (i mod length texts))) [0 ..< nat \<lceil>rows\<rceil>], 0)"
  by (simp add: sheet_rows_def push_loop_eq cyclic_pick_def)

lemma sheet_rows_filler:
  "texts_opt = None \<or> texts_opt = Some [] \<Longrightarrow>
   sheet_rows env rows texts_opt k =
     (Some [JStr ''Name'', JStr ''Email'']
        # map (\<lambda>i. Some [JStr (fullName env (k + 2 * i)), JStr (email env (k + 2 * i + 1))])
            [0 ..< nat \<lceil>rows\<rceil>],
      2 * nat \<lceil>rows\<rceil>)"
  by (auto simp add: sheet_rows_def push_loop_eq Let_def)

lemma seq_Inr: "seq r f = (Inr (), w') \<Longrightarrow> \<exists>w1. r = (Inr (), w1) \<and> f w1 = (Inr (), w')"
  by (cases r) (auto simp add: seq_def split: sum.splits)

lemma perform_Inr: "perform env e w = (Inr (), w') \<Longrightarrow> w' = w\<lparr>trace := trace w @ [e]\<rparr>"
  by (auto simp add: perform_def split: option.splits)

text \<open>A loop over \<open>xs @ ys\<close> is the loop over \<open>xs\<close> and, if that did not throw, the loop
  over \<open>ys\<close>; the same for the sections.\<close>

lemma handle_items_append:
  "handle_items env k idx (xs @ ys) w =
     (case handle_items env k idx xs w of
        (Inl e, w') \<Rightarrow> (Inl e, w')
      | (Inr u, w') \<Rightarrow> handle_items env k (idx + length xs) ys w')"
  by (induction xs arbitrary: idx w) (auto split: prod.splits sum.splits)

lemma run_sections_append:
  "run_sections env cfg (pre @ post) w =
     (case run_sections env cfg pre w of
        (Inl e, w') \<Rightarrow> (Inl e, w')
      | (Inr u, w') \<Rightarrow> run_sections env cfg post w')"
  by (induction pre arbitrary: w) (auto split: prod.splits sum.splits)

lemma run_sections_fail_at:
  assumes "run_sections env cfg pre w0 = (Inr (), w1)" and "run_section env cfg s w1 = (Inl e, w2)"
  shows "run_sections env cfg (pre @ s # post) w0 = (Inl e, w2)"
  using assms by (simp add: run_sections_append)

lemma handle_items_fail_at:
  assumes "handle_items env k 0 xs w = (Inr (), w1)"
    and "handle_item env k (length xs) x w1 = (Inl e, w2)"
  shows "handle_items env k 0 (xs @ x # ys) w = (Inl e, w2)"
  using assms by (simp add: handle_items_append)

lemma handle_section_fail_at:
  assumes "items_of v = xs @ x # ys"
    and "handle_items env k 0 xs w = (Inr (), w1)"
    and "handle_item env k (length xs) x w1 = (Inl e, w2)"
  shows "handle_section env k v w = (Inl e, w2)"
  unfolding handle_section_def assms(1) by (rule handle_items_fail_at [OF assms(2,3)])

lemma handle_sub_fail_at:
  assumes "truthy v" and "items_of v = xs @ x # ys"
    and "handle_items env k 0 xs w = (Inr (), w1)"
    and "handle_item env k (length xs) x w1 = (Inl e, w2)"
  shows "handle_sub env k v w = (Inl e, w2)"
  using assms(1) handle_section_fail_at [OF assms(2-4)] by (simp add: handle_sub_def)

lemma run_fail_at:
  assumes "sections = pre @ (key, h) # post"
    and "ensure_outputDir env cfg w = (Inr (), w0)"
    and "run_sections env cfg pre w0 = (Inr (), ws)"
    and "truthy (get_prop cfg key)"
    and "h env (get_prop cfg key) ws = (Inl e, w2)"
  shows "runFromConfig env cfg w = (Inl e, w2)"
proof -
  have "run_section env cfg (key, h) ws = (Inl e, w2)"
    using assms(4,5) by (simp add: run_section_def)
  then have "run_sections env cfg sections w0 = (Inl e, w2)"
    unfolding assms(1) by (rule run_sections_fail_at [OF assms(3)])
  with assms(2) show ?thesis
    by (simp add: runFromConfig_def seq_def)
qed

lemma simple_handlers:
  assumes "(key, k, h) \<in> set [(''json'', KJson, handleJSON), (''pdf'', KPdf, handlePDF),
        (''txt'', KTxt, handleTXT), (''docx'', KDocx, handleDOCX), (''pptx'', KPptx, handlePPTX),
        (''xlsx'', KXlsx, handleXLSX), (''csv'', KCsv, handleCSV), (''video'', KVideo, handleVideo)]"
  shows "h env v w = handle_section env k v w"
  using assms
  by (auto simp add: handleJSON_def handlePDF_def handleTXT_def handleDOCX_def handlePPTX_def
      handleXLSX_def handleCSV_def handleVideo_def)

lemma handle_item_invalid:
  "validate k idx item = Inl e \<Longrightarrow>
   handle_item env k idx item w = (Inl e, emit (failure_lines k idx e) w)"
  by (simp add: handle_item_def)

lemma failure_lines_print: "list_all is_print (failure_lines k idx e)"
  by (cases k) (simp_all add: failure_lines_def error_lines_def)

lemma validate_pdf_example:
  "validate KPdf 0 (JObj [(''path'', JStr ''x.pdf''), (''lines'', JNum (Fin (- 1)))])
     = Inl (Error ''pdf[0].lines must be a positive integer'')"
  by (simp add: validatePDF_def and_then_def first_prop_def optional_def loc_def
      is_ascii_ws_def ws_codes_def)

lemma sections_pdf_only:
  "run_sections env (JObj [(''pdf'', item)]) sections w
     = (if truthy item then
          (case handlePDF env item w of
             (Inl e, w') \<Rightarrow> (Inl e, w')
           | (Inr u, w') \<Rightarrow> (Inr (), w'))
        else (Inr (), w))"
  by (simp add: sections_def run_section_def split: prod.splits sum.splits)

lemma get_prop_not_nullish: "get_prop item k = JStr p \<Longrightarrow> first_prop item k = Inr (JStr p)"
  by (cases item) (simp_all add: first_prop_def)

lemma validateCSV_both:
  assumes "get_prop item ''path'' = JStr p" and "\<not> trim_empty p"
    and "get_prop item ''rows'' = JNum (Fin r)" and "0 < r" and "of_int \<lfloor>r\<rfloor> = r"
    and "get_prop item ''data'' = JArr recs"
    and "list_all (\<lambda>x. truthy x \<and> typeof_object x) recs"
  shows "validate KCsv idx item
     = Inr ([csv_notice idx], CallCSV p (Some r) (Some (map entries_of recs)))"
  using assms
  by (simp add: validateCSV_def and_then_def get_prop_not_nullish optional_def object_array_def)

text \<open>The key check passes exactly when every record has as many keys as the first
  record and only keys of the first record; for distinct keys, when the key sets agree.\<close>

lemma check_records_ok_iff:
  "check_records keys data = Inr () \<longleftrightarrow>
     (\<forall>r \<in> set data. length (Object_keys r) = length keys \<and> set (Object_keys r) \<subseteq> set keys)"
  by (induction data) (auto simp add: list_all_iff)

lemma check_records_cases:
  "check_records keys data = Inr ()
   \<or> check_records keys data = Inl (Error ''All records must have the same keys and key count'')"
  by (induction data) auto

lemma same_keys_iff:
  assumes "distinct xs" and "distinct ys"
  shows "length xs = length ys \<and> set xs \<subseteq> set ys \<longleftrightarrow> set xs = set ys"
proof
  assume h: "length xs = length ys \<and> set xs \<subseteq> set ys"
  then have "card (set xs) = card (set ys)"
    using assms by (simp add: distinct_card)
  with h show "set xs = set ys"
    by (simp add: card_subset_eq)
next
  assume "set xs = set ys"
  then show "length xs = length ys \<and> set xs \<subseteq> set ys"
    using assms by (metis distinct_card order_refl)
qed

text \<open>\<open>replace_first\<close> leaves a string without the pattern alone, and rewrites the
  leftmost occurrence of the pattern otherwise.\<close>

lemma replace_first_absent:
  "\<not> sublist pat s \<Longrightarrow> replace_first pat rep s = s"
proof (induction s)
  case Nil
  then show ?case by auto
next
  case (Cons c cs)
  have "\<not> prefix pat (c # cs)"
    using Cons.prems by (meson prefix_imp_sublist)
  moreover have "\<not> sublist pat cs"
    using Cons.prems by (meson sublist_Cons_right)
  ultimately show ?case
    using Cons.IH by simp
qed

lemma replace_first_at:
  "\<forall>u' v'. u @ pat @ v = u' @ pat @ v' \<longrightarrow> length u \<le> length u' \<Longrightarrow>
   replace_first pat rep (u @ pat @ v) = u @ rep @ v"
proof (induction u)
  case Nil
  show ?case
  proof (cases "pat @ v")
    case Nil
    then show ?thesis
      by simp
  next
    case (Cons a l)
    have "prefix pat (a # l)"
      by (metis Cons prefixI)
    then have "replace_first pat rep (a # l) = rep @ drop (length pat) (a # l)"
      by simp
    also have "drop (length pat) (a # l) = v"
      by (metis Cons append_eq_conv_conj)
    finally show ?thesis
      using Cons by simp
  qed
next
  case (Cons c u)
  have np: "\<not> prefix pat (c # u @ pat @ v)"
  proof
    assume "prefix pat (c # u @ pat @ v)"
    then obtain z where "c # u @ pat @ v = [] @ pat @ z"
      by (auto simp add: prefix_def)
    then have "length (c # u) \<le> length ([] :: string)"
      using Cons.prems by (metis append_Cons)
    then show False
      by simp
  qed
  have "\<forall>u' v'. u @ pat @ v = u' @ pat @ v' \<longrightarrow> length u \<le> length u'"
  proof (intro allI impI)
    fix u' v'
    assume "u @ pat @ v = u' @ pat @ v'"
    then have "(c # u) @ pat @ v = (c # u') @ pat @ v'"
      by simp
    then have "length (c # u) \<le> length (c # u')"
      using Cons.prems by blast
    then show "length u \<le> length u'"
      by simp
  qed
  then have "replace_first pat rep (u @ pat @ v) = u @ rep @ v"
    by (rule Cons.IH)
  then show ?case
    using np by simp
qed

text \<open>A deck is filled slide by slide and a book sheet by sheet: the slide after \<open>pre\<close>
  gets its own content, drawn with the faker where \<open>pre\<close> left it.\<close>

lemma slides_content_at:
  "slides_content env (pre @ (slideTitle, lines, texts) # post) k =
     (fst (slides_content env pre k)
        @ (slideTitle, fst (text_content env lines texts (snd (slides_content env pre k))))
        # fst (slides_content env post
               (snd (slides_content env pre k)
                  + snd (text_content env lines texts (snd (slides_content env pre k))))),
      snd (slides_content env post
             (snd (slides_content env pre k)
                + snd (text_content env lines texts (snd (slides_content env pre k))))))"
  by (induction pre arbitrary: k) (auto split: prod.splits)

lemma sheets_content_at:
  "sheets_content env (pre @ (sheetName, rows, texts) # post) k =
     (fst (sheets_content env pre k)
        @ (sheetName, fst (sheet_rows env rows texts (snd (sheets_content env pre k))))
        # fst (sheets_content env post
               (snd (sheets_content env pre k)
                  + snd (sheet_rows env rows texts (snd (sheets_content env pre k))))),
      snd (sheets_content env post
             (snd (sheets_content env pre k)
                + snd (sheet_rows env rows texts (snd (sheets_content env pre k))))))"
  by (induction pre arbitrary: k) (auto split: prod.splits)

text \<open>An empty \<open>texts\<close> on any slide of a deck, or on any sheet of a book, is as good as
  none.\<close>

lemma slides_content_empty_texts:
  "slides_content env (pre @ (slideTitle, lines, Some []) # post) k
     = slides_content env (pre @ (slideTitle, lines, None) # post) k"
  by (induction pre arbitrary: k) (auto simp add: text_content_filler split: prod.splits)

lemma sheets_content_empty_texts:
  "sheets_content env (pre @ (sheetName, rows, Some []) # post) k
     = sheets_content env (pre @ (sheetName, rows, None) # post) k"
  by (induction pre arbitrary: k) (auto simp add: sheet_rows_filler split: prod.splits)

text \<open>The \<open>crf\<close> check of the handler accepts exactly the finite numbers in \<open>(0, 51]\<close>.\<close>

lemma check_crf_accepts_iff:
  "check_crf (JNum (Fin q)) wh = Inr q' \<longleftrightarrow> 0 < q \<and> q \<le> 51 \<and> q' = q"
  by (auto simp add: check_crf_def and_then_def)

lemma check_crf_not_finite:
  assumes "\<not> (\<exists>q. v = JNum (Fin q))"
  shows "check_crf v wh = Inl (Error (wh @ '' must be a positive number''))"
proof (cases v)
  case (JNum n)
  with assms show ?thesis
    by (cases n) (simp_all add: check_crf_def and_then_def)
qed (simp_all add: check_crf_def and_then_def)

section \<open>The claims\<close>

text \<open>
  C1. The claim: validation of a video request's \<open>crf\<close> accepts every finite number in the
  inclusive range 0 to 51, \<open>crf = 0\<close> in particular. The handler first asks for a positive
  number, so the plan \<open>{video: {path: "v.mp4", crf: 0}}\<close> is rejected with
  \<open>video[0].crf must be a positive number\<close>, although the check that follows, the message
  of that check, the README and \<^verbatim>\<open>generateMP4\<close> itself all take 0 as legal:
  \<^verbatim>\<open>generateMP4\<close> called with \<open>crf = 0\<close> goes on to run ffmpeg.
\<close>

theorem C1_crf_zero_rejected:
  "check_crf (JNum (Fin 0)) (loc ''video'' 0 ''crf'')
     = Inl (Error ''video[0].crf must be a positive number'')
   \<and> validate KVideo 0 (JObj [(''path'', JStr ''v.mp4''), (''crf'', JNum (Fin 0))])
     = Inl (Error ''video[0].crf must be a positive number'')
   \<and> generateMP4 env ''v.mp4''
        \<lparr>duration = None, resolution = None, fps = None, background = None, crf = Some 0,
         pixelFormat = None, preset = None, silentAudio = None\<rparr> w
     = perform env (EncodeMP4 ''v.mp4'' 1 ''1280x720'' 30 ''black'' 0 ''yuv420p'' ''medium'' True) w"
  by (simp add: validateVideo_def and_then_def first_prop_def optional_def loc_def check_crf_def
      is_ascii_ws_def ws_codes_def generateMP4_def or_default_def resolution_ok_def is_digit_def)

text \<open>
  C2. Fail-fast. For each of the eight plain sections (json, pdf, txt, docx, pptx, xlsx, csv,
  video) and each of the seven sub-sections (images.jpg, images.png, images.custom,
  audio.wav, audio.mp3, archives.zip, archives.rar): if the sections before it succeed, the
  sub-sections before it succeed, the items before \<open>x\<close> in it succeed and \<open>x\<close> fails (its
  validation, its directory or its generator), then the whole run ends with that failure
  in the world \<open>x\<close> left. The items after \<open>x\<close>, the later sub-sections and the later
  sections do nothing, and \<open>Done.\<close> is not printed. The first conjuncts state the same of
  the item loop, of the sequence of sections and of the composite handlers on their own.
\<close>

theorem C2_fail_fast:
  "(handle_items env k 0 xs w = (Inr (), w1) \<and> handle_item env k (length xs) x w1 = (Inl e, w2)
      \<longrightarrow> handle_items env k 0 (xs @ x # ys) w = (Inl e, w2))
   \<and> (sections = pre @ s # post \<and> ensure_outputDir env cfg w = (Inr (), w0)
        \<and> run_sections env cfg pre w0 = (Inr (), w1) \<and> run_section env cfg s w1 = (Inl e, w2)
      \<longrightarrow> runFromConfig env cfg w = (Inl e, w2))
   \<and> (handle_sub env KJpg (get_prop cfg ''jpg'') w = (Inl e, w2)
      \<longrightarrow> handleImages env cfg w = (Inl e, w2))
   \<and> (handle_sub env KJpg (get_prop cfg ''jpg'') w = (Inr (), w1)
        \<and> handle_sub env KPng (get_prop cfg ''png'') w1 = (Inl e, w2)
      \<longrightarrow> handleImages env cfg w = (Inl e, w2))
   \<and> (handle_sub env KWav (get_prop cfg ''wav'') w = (Inl e, w2)
      \<longrightarrow> handleAudio env cfg w = (Inl e, w2))
   \<and> (handle_sub env KZip (get_prop cfg ''zip'') w = (Inl e, w2)
      \<longrightarrow> handleArchives env cfg w = (Inl e, w2))
   \<and> ((key, k, h) \<in> set [(''json'', KJson, handleJSON), (''pdf'', KPdf, handlePDF),
          (''txt'', KTxt, handleTXT), (''docx'', KDocx, handleDOCX), (''pptx'', KPptx, handlePPTX),
          (''xlsx'', KXlsx, handleXLSX), (''csv'', KCsv, handleCSV), (''video'', KVideo, handleVideo)]
        \<and> sections = pre @ (key, h) # post \<and> ensure_outputDir env cfg w = (Inr (), w0)
        \<and> run_sections env cfg pre w0 = (Inr (), ws) \<and> truthy (get_prop cfg key)
        \<and> items_of (get_prop cfg key) = xs @ x # ys
        \<and> handle_items env k 0 xs ws = (Inr (), wi)
        \<and> handle_item env k (length xs) x wi = (Inl e, w2)
      \<longrightarrow> runFromConfig env cfg w = (Inl e, w2))
   \<and> (sections = pre @ (''images'', handleImages) # post \<and> ensure_outputDir env cfg w = (Inr (), w0)
        \<and> run_sections env cfg pre w0 = (Inr (), ws) \<and> truthy (get_prop cfg ''images'')
        \<and> truthy (get_prop (get_prop cfg ''images'') ''jpg'')
        \<and> items_of (get_prop (get_prop cfg ''images'') ''jpg'') = xs @ x # ys
        \<and> handle_items env KJpg 0 xs ws = (Inr (), wi)
        \<and> handle_item env KJpg (length xs) x wi = (Inl e, w2)
      \<longrightarrow> runFromConfig env cfg w = (Inl e, w2))
   \<and> (sections = pre @ (''images'', handleImages) # post \<and> ensure_outputDir env cfg w = (Inr (), w0)
        \<and> run_sections env cfg pre w0 = (Inr (), ws) \<and> truthy (get_prop cfg ''images'')
        \<and> handle_sub env KJpg (get_prop (get_prop cfg ''images'') ''jpg'') ws = (Inr (), wa)
        \<and> truthy (get_prop (get_prop cfg ''images'') ''png'')
        \<and> items_of (get_prop (get_prop cfg ''images'') ''png'') = xs @ x # ys
        \<and> handle_items env KPng 0 xs wa = (Inr (), wi)
        \<and> handle_item env KPng (length xs) x wi = (Inl e, w2)
      \<longrightarrow> runFromConfig env cfg w = (Inl e, w2))
   \<and> (sections = pre @ (''images'', handleImages) # post \<and> ensure_outputDir env cfg w = (Inr (), w0)
        \<and> run_sections env cfg pre w0 = (Inr (), ws) \<and> truthy (get_prop cfg ''images'')
        \<and> handle_sub env KJpg (get_prop (get_prop cfg ''images'') ''jpg'') ws = (Inr (), wa)
        \<and> handle_sub env KPng (get_prop (get_prop cfg ''images'') ''png'') wa = (Inr (), wb)
        \<and> truthy (get_prop (get_prop cfg ''images'') ''custom'')
        \<and> items_of (get_prop (get_prop cfg ''images'') ''custom'') = xs @ x # ys
        \<and> handle_items env KCustom 0 xs wb = (Inr (), wi)
        \<and> handle_item env KCustom (length xs) x wi = (Inl e, w2)
      \<longrightarrow> runFromConfig env cfg w = (Inl e, w2))
   \<and> (sections = pre @ (''audio'', handleAudio) # post \<and> ensure_outputDir env cfg w = (Inr (), w0)
        \<and> run_sections env cfg pre w0 = (Inr (), ws) \<and> truthy (get_prop cfg ''audio'')
        \<and> truthy (get_prop (get_prop cfg ''audio'') ''wav'')
        \<and> items_of (get_prop (get_prop cfg ''audio'') ''wav'') = xs @ x # ys
        \<and> handle_items env KWav 0 xs ws = (Inr (), wi)
        \<and> handle_item env KWav (length xs) x wi = (Inl e, w2)
      \<longrightarrow> runFromConfig env cfg w = (Inl e, w2))
   \<and> (sections = pre @ (''audio'', handleAudio) # post \<and> ensure_outputDir env cfg w = (Inr (), w0)
        \<and> run_sections env cfg pre w0 = (Inr (), ws) \<and> truthy (get_prop cfg ''audio'')
        \<and> handle_sub env KWav (get_prop (get_prop cfg ''audio'') ''wav'') ws = (Inr (), wa)
        \<and> truthy (get_prop (get_prop cfg ''audio'') ''mp3'')
        \<and> items_of (get_prop (get_prop cfg ''audio'') ''mp3'') = xs @ x # ys
        \<and> handle_items env KMp3 0 xs wa = (Inr (), wi)
        \<and> handle_item env KMp3 (length xs) x wi = (Inl e, w2)
      \<longrightarrow> runFromConfig env cfg w = (Inl e, w2))
   \<and> (sections = pre @ (''archives'', handleArchives) # post \<and> ensure_outputDir env cfg w = (Inr (), w0)
        \<and> run_sections env cfg pre w0 = (Inr (), ws) \<and> truthy (get_prop cfg ''archives'')
        \<and> truthy (get_prop (get_prop cfg ''archives'') ''zip'')
        \<and> items_of (get_prop (get_prop cfg ''archives'') ''zip'') = xs @ x # ys
        \<and> handle_items env KZip 0 xs ws = (Inr (), wi)
        \<and> handle_item env KZip (length xs) x wi = (Inl e, w2)
      \<longrightarrow> runFromConfig env cfg w = (Inl e, w2))
   \<and> (sections = pre @ (''archives'', handleArchives) # post \<and> ensure_outputDir env cfg w = (Inr (), w0)
        \<and> run_sections env cfg pre w0 = (Inr (), ws) \<and> truthy (get_prop cfg ''archives'')
        \<and> handle_sub env KZip (get_prop (get_prop cfg ''archives'') ''zip'') ws = (Inr (), wa)
        \<and> truthy (get_prop (get_prop cfg ''archives'') ''rar'')
        \<and> items_of (get_prop (get_prop cfg ''archives'') ''rar'') = xs @ x # ys
        \<and> handle_items env KRar 0 xs wa = (Inr (), wi)
        \<and> handle_item env KRar (length xs) x wi = (Inl e, w2)
      \<longrightarrow> runFromConfig env cfg w = (Inl e, w2))"
proof (intro conjI impI)
  assume "handle_items env k 0 xs w = (Inr (), w1) \<and> handle_item env k (length xs) x w1 = (Inl e, w2)"
  then show "handle_items env k 0 (xs @ x # ys) w = (Inl e, w2)"
    by (simp add: handle_items_append)
next
  assume h: "sections = pre @ s # post \<and> ensure_outputDir env cfg w = (Inr (), w0)
        \<and> run_sections env cfg pre w0 = (Inr (), w1) \<and> run_section env cfg s w1 = (Inl e, w2)"
  then have eq: "sections = pre @ s # post"
    and o: "ensure_outputDir env cfg w = (Inr (), w0)"
    and a: "run_sections env cfg pre w0 = (Inr (), w1)"
    and b: "run_section env cfg s w1 = (Inl e, w2)"
    by blast+
  have "run_sections env cfg sections w0 = (Inl e, w2)"
    unfolding eq by (rule run_sections_fail_at [OF a b])
  with o show "runFromConfig env cfg w = (Inl e, w2)"
    by (simp add: runFromConfig_def seq_def)
next
  assume "handle_sub env KJpg (get_prop cfg ''jpg'') w = (Inl e, w2)"
  then show "handleImages env cfg w = (Inl e, w2)"
    by (simp add: handleImages_def seq_def)
next
  assume "handle_sub env KJpg (get_prop cfg ''jpg'') w = (Inr (), w1)
        \<and> handle_sub env KPng (get_prop cfg ''png'') w1 = (Inl e, w2)"
  then show "handleImages env cfg w = (Inl e, w2)"
    by (simp add: handleImages_def seq_def)
next
  assume "handle_sub env KWav (get_prop cfg ''wav'') w = (Inl e, w2)"
  then show "handleAudio env cfg w = (Inl e, w2)"
    by (simp add: handleAudio_def seq_def)
next
  assume "handle_sub env KZip (get_prop cfg ''zip'') w = (Inl e, w2)"
  then show "handleArchives env cfg w = (Inl e, w2)"
    by (simp add: handleArchives_def seq_def)
next
  assume h: "(key, k, h) \<in> set [(''json'', KJson, handleJSON), (''pdf'', KPdf, handlePDF),
          (''txt'', KTxt, handleTXT), (''docx'', KDocx, handleDOCX), (''pptx'', KPptx, handlePPTX),
          (''xlsx'', KXlsx, handleXLSX), (''csv'', KCsv, handleCSV), (''video'', KVideo, handleVideo)]
        \<and> sections = pre @ (key, h) # post \<and> ensure_outputDir env cfg w = (Inr (), w0)
        \<and> run_sections env cfg pre w0 = (Inr (), ws) \<and> truthy (get_prop cfg key)
        \<and> items_of (get_prop cfg key) = xs @ x # ys
        \<and> handle_items env k 0 xs ws = (Inr (), wi)
        \<and> handle_item env k (length xs) x wi = (Inl e, w2)"
  then have "handle_section env k (get_prop cfg key) ws = (Inl e, w2)"
    by (blast intro: handle_section_fail_at)
  with h have "h env (get_prop cfg key) ws = (Inl e, w2)"
    using simple_handlers [of key k h env "get_prop cfg key" ws] by simp
  with h show "runFromConfig env cfg w = (Inl e, w2)"
    by (blast intro: run_fail_at)
next
  assume h: "sections = pre @ (''images'', handleImages) # post \<and> ensure_outputDir env cfg w = (Inr (), w0)
        \<and> run_sections env cfg pre w0 = (Inr (), ws) \<and> truthy (get_prop cfg ''images'')
        \<and> truthy (get_prop (get_prop cfg ''images'') ''jpg'')
        \<and> items_of (get_prop (get_prop cfg ''images'') ''jpg'') = xs @ x # ys
        \<and> handle_items env KJpg 0 xs ws = (Inr (), wi)
        \<and> handle_item env KJpg (length xs) x wi = (Inl e, w2)"
  then have "handle_sub env KJpg (get_prop (get_prop cfg ''images'') ''jpg'') ws = (Inl e, w2)"
    by (blast intro: handle_sub_fail_at)
  with h have "handleImages env (get_prop cfg ''images'') ws = (Inl e, w2)"
    by (simp add: handleImages_def seq_def)
  with h show "runFromConfig env cfg w = (Inl e, w2)"
    by (blast intro: run_fail_at)
next
  assume h: "sections = pre @ (''images'', handleImages) # post \<and> ensure_outputDir env cfg w = (Inr (), w0)
        \<and> run_sections env cfg pre w0 = (Inr (), ws) \<and> truthy (get_prop cfg ''images'')
        \<and> handle_sub env KJpg (get_prop (get_prop cfg ''images'') ''jpg'') ws = (Inr (), wa)
        \<and> truthy (get_prop (get_prop cfg ''images'') ''png'')
        \<and> items_of (get_prop (get_prop cfg ''images'') ''png'') = xs @ x # ys
        \<and> handle_items env KPng 0 xs wa = (Inr (), wi)
        \<and> handle_item env KPng (length xs) x wi = (Inl e, w2)"
  then have "handle_sub env KPng (get_prop (get_prop cfg ''images'') ''png'') wa = (Inl e, w2)"
    by (blast intro: handle_sub_fail_at)
  with h have "handleImages env (get_prop cfg ''images'') ws = (Inl e, w2)"
    by (simp add: handleImages_def seq_def)
  with h show "runFromConfig env cfg w = (Inl e, w2)"
    by (blast intro: run_fail_at)
next
  assume h: "sections = pre @ (''images'', handleImages) # post \<and> ensure_outputDir env cfg w = (Inr (), w0)
        \<and> run_sections env cfg pre w0 = (Inr (), ws) \<and> truthy (get_prop cfg ''images'')
        \<and> handle_sub env KJpg (get_prop (get_prop cfg ''images'') ''jpg'') ws = (Inr (), wa)
        \<and> handle_sub env KPng (get_prop (get_prop cfg ''images'') ''png'') wa = (Inr (), wb)
        \<and> truthy (get_prop (get_prop cfg ''images'') ''custom'')
        \<and> items_of (get_prop (get_prop cfg ''images'') ''custom'') = xs @ x # ys
        \<and> handle_items env KCustom 0 xs wb = (Inr (), wi)
        \<and> handle_item env KCustom (length xs) x wi = (Inl e, w2)"
  then have "handle_sub env KCustom (get_prop (get_prop cfg ''images'') ''custom'') wb = (Inl e, w2)"
    by (blast intro: handle_sub_fail_at)
  with h have "handleImages env (get_prop cfg ''images'') ws = (Inl e, w2)"
    by (simp add: handleImages_def seq_def)
  with h show "runFromConfig env cfg w = (Inl e, w2)"
    by (blast intro: run_fail_at)
next
  assume h: "sections = pre @ (''audio'', handleAudio) # post \<and> ensure_outputDir env cfg w = (Inr (), w0)
        \<and> run_sections env cfg pre w0 = (Inr (), ws) \<and> truthy (get_prop cfg ''audio'')
        \<and> truthy (get_prop (get_prop cfg ''audio'') ''wav'')
        \<and> items_of (get_prop (get_prop cfg ''audio'') ''wav'') = xs @ x # ys
        \<and> handle_items env KWav 0 xs ws = (Inr (), wi)
        \<and> handle_item env KWav (length xs) x wi = (Inl e, w2)"
  then have "handle_sub env KWav (get_prop (get_prop cfg ''audio'') ''wav'') ws = (Inl e, w2)"
    by (blast intro: handle_sub_fail_at)
  with h have "handleAudio env (get_prop cfg ''audio'') ws = (Inl e, w2)"
    by (simp add: handleAudio_def seq_def)
  with h show "runFromConfig env cfg w = (Inl e, w2)"
    by (blast intro: run_fail_at)
next
  assume h: "sections = pre @ (''audio'', handleAudio) # post \<and> ensure_outputDir env cfg w = (Inr (), w0)
        \<and> run_sections env cfg pre w0 = (Inr (), ws) \<and> truthy (get_prop cfg ''audio'')
        \<and> handle_sub env KWav (get_prop (get_prop cfg ''audio'') ''wav'') ws = (Inr (), wa)
        \<and> truthy (get_prop (get_prop cfg ''audio'') ''mp3'')
        \<and> items_of (get_prop (get_prop cfg ''audio'') ''mp3'') = xs @ x # ys
        \<and> handle_items env KMp3 0 xs wa = (Inr (), wi)
        \<and> handle_item env KMp3 (length xs) x wi = (Inl e, w2)"
  then have "handle_sub env KMp3 (get_prop (get_prop cfg ''audio'') ''mp3'') wa = (Inl e, w2)"
    by (blast intro: handle_sub_fail_at)
  with h have "handleAudio env (get_prop cfg ''audio'') ws = (Inl e, w2)"
    by (simp add: handleAudio_def seq_def)
  with h show "runFromConfig env cfg w = (Inl e, w2)"
    by (blast intro: run_fail_at)
next
  assume h: "sections = pre @ (''archives'', handleArchives) # post \<and> ensure_outputDir env cfg w = (Inr (), w0)
        \<and> run_sections env cfg pre w0 = (Inr (), ws) \<and> truthy (get_prop cfg ''archives'')
        \<and> truthy (get_prop (get_prop cfg ''archives'') ''zip'')
        \<and> items_of (get_prop (get_prop cfg ''archives'') ''zip'') = xs @ x # ys
        \<and> handle_items env KZip 0 xs ws = (Inr (), wi)
        \<and> handle_item env KZip (length xs) x wi = (Inl e, w2)"
  then have "handle_sub env KZip (get_prop (get_prop cfg ''archives'') ''zip'') ws = (Inl e, w2)"
    by (blast intro: handle_sub_fail_at)
  with h have "handleArchives env (get_prop cfg ''archives'') ws = (Inl e, w2)"
    by (simp add: handleArchives_def seq_def)
  with h show "runFromConfig env cfg w = (Inl e, w2)"
    by (blast intro: run_fail_at)
next
  assume h: "sections = pre @ (''archives'', handleArchives) # post \<and> ensure_outputDir env cfg w = (Inr (), w0)
        \<and> run_sections env cfg pre w0 = (Inr (), ws) \<and> truthy (get_prop cfg ''archives'')
        \<and> handle_sub env KZip (get_prop (get_prop cfg ''archives'') ''zip'') ws = (Inr (), wa)
        \<and> truthy (get_prop (get_prop cfg ''archives'') ''rar'')
        \<and> items_of (get_prop (get_prop cfg ''archives'') ''rar'') = xs @ x # ys
        \<and> handle_items env KRar 0 xs wa = (Inr (), wi)
        \<and> handle_item env KRar (length xs) x wi = (Inl e, w2)"
  then have "handle_sub env KRar (get_prop (get_prop cfg ''archives'') ''rar'') wa = (Inl e, w2)"
    by (blast intro: handle_sub_fail_at)
  with h have "handleArchives env (get_prop cfg ''archives'') ws = (Inl e, w2)"
    by (simp add: handleArchives_def seq_def)
  with h show "runFromConfig env cfg w = (Inl e, w2)"
    by (blast intro: run_fail_at)
qed

lemmas run_defs =
  handle_item_def and_then_def first_prop_def optional_def loc_def is_ascii_ws_def ws_codes_def
  string_array_def object_array_def ensureDirFor_def perform_def seq_def emit_def info_def
  line_text_def failure_lines_def error_lines_def quiet_env_def start_def simple_dirname_def
  upt_rec comp_def

theorem C2_fail_fast_witness:
  "runFromConfig quiet_env ex_plan start
     = (Inl (Error ''txt[1].lines must be a positive integer''),
        \<lparr>trace = [MkDir ''.'',
                  WriteFile ''a.txt'' (PlainText (''x'' @ [CHR 0x0A, CHR 0x0A] @ ''x'')),
                  Log (''[file-fabric] Generated TXT '' @ arrow @ '' a.txt''),
                  LogError ''[file-fabric] ERROR: TXT generation failed at index 1'',
                  LogError ''Cause: txt[1].lines must be a positive integer''],
         faker_calls = 0\<rparr>)
   \<and> runFromConfig no_ffmpeg_env ex_audio_plan start
     = (Inl (Error ''spawn ffmpeg ENOENT''),
        \<lparr>trace = [MkDir ''.'',
                  Encode (WavData 1 None),
                  WriteFile ''a.wav'' (WavData 1 None),
                  Transcode ''a.wav'' ''a.mp3'',
                  LogError ''[file-fabric] ERROR: MP3 generation failed at index 0'',
                  LogError ''Cause: spawn ffmpeg ENOENT'',
                  LogError (''[file-fabric] ERROR: Hint: MP3 requires ffmpeg ''
                    @ ''(provided via ffmpeg-static on supported platforms).'')],
         faker_calls = 0\<rparr>)"
proof -
  let ?e = "Error ''txt[1].lines must be a positive integer''"
  let ?w1 = "\<lparr>trace = [MkDir ''.'',
                  WriteFile ''a.txt'' (PlainText (''x'' @ [CHR 0x0A, CHR 0x0A] @ ''x'')),
                  Log (''[file-fabric] Generated TXT '' @ arrow @ '' a.txt'')],
         faker_calls = 0\<rparr>"
  let ?w2 = "\<lparr>trace = [MkDir ''.'',
                  WriteFile ''a.txt'' (PlainText (''x'' @ [CHR 0x0A, CHR 0x0A] @ ''x'')),
                  Log (''[file-fabric] Generated TXT '' @ arrow @ '' a.txt''),
                  LogError ''[file-fabric] ERROR: TXT generation failed at index 1'',
                  LogError ''Cause: txt[1].lines must be a positive integer''],
         faker_calls = 0\<rparr>"
  let ?pre = "[(''json'', handleJSON), (''pdf'', handlePDF)]"
  let ?post = "[(''docx'', handleDOCX), (''pptx'', handlePPTX), (''xlsx'', handleXLSX),
           (''csv'', handleCSV), (''images'', handleImages), (''audio'', handleAudio),
           (''video'', handleVideo), (''archives'', handleArchives)]"
  have t: "(''txt'', KTxt, handleTXT) \<in> set [(''json'', KJson, handleJSON), (''pdf'', KPdf, handlePDF),
          (''txt'', KTxt, handleTXT), (''docx'', KDocx, handleDOCX), (''pptx'', KPptx, handlePPTX),
          (''xlsx'', KXlsx, handleXLSX), (''csv'', KCsv, handleCSV), (''video'', KVideo, handleVideo)]
        \<and> sections = ?pre @ (''txt'', handleTXT) # ?post
        \<and> ensure_outputDir quiet_env ex_plan start = (Inr (), start)
        \<and> run_sections quiet_env ex_plan ?pre start = (Inr (), start)
        \<and> truthy (get_prop ex_plan ''txt'')
        \<and> items_of (get_prop ex_plan ''txt'') = [ex_txt_ok] @ ex_txt_bad # [ex_txt_late]
        \<and> handle_items quiet_env KTxt 0 [ex_txt_ok] start = (Inr (), ?w1)
        \<and> handle_item quiet_env KTxt (length [ex_txt_ok]) ex_txt_bad ?w1 = (Inl ?e, ?w2)"
    by (simp add: run_defs sections_def ensure_outputDir_def run_section_def ex_plan_def
        items_of_def ex_txt_ok_def ex_txt_bad_def validateTXT_def generateTXT_def
        text_content_cycle)
  have r1: "runFromConfig quiet_env ex_plan start = (Inl ?e, ?w2)"
    by (rule C2_fail_fast [THEN conjunct2, THEN conjunct2, THEN conjunct2, THEN conjunct2,
          THEN conjunct2, THEN conjunct2, THEN conjunct1, rule_format, OF t])
  let ?f = "Error ''spawn ffmpeg ENOENT''"
  let ?v = "\<lparr>trace = [MkDir ''.'',
                  Encode (WavData 1 None),
                  WriteFile ''a.wav'' (WavData 1 None),
                  Transcode ''a.wav'' ''a.mp3'',
                  LogError ''[file-fabric] ERROR: MP3 generation failed at index 0'',
                  LogError ''Cause: spawn ffmpeg ENOENT'',
                  LogError (''[file-fabric] ERROR: Hint: MP3 requires ffmpeg ''
                    @ ''(provided via ffmpeg-static on supported platforms).'')],
         faker_calls = 0\<rparr>"
  let ?apre = "[(''json'', handleJSON), (''pdf'', handlePDF), (''txt'', handleTXT),
           (''docx'', handleDOCX), (''pptx'', handlePPTX), (''xlsx'', handleXLSX),
           (''csv'', handleCSV), (''images'', handleImages)]"
  let ?apost = "[(''video'', handleVideo), (''archives'', handleArchives)]"
  have m: "sections = ?apre @ (''audio'', handleAudio) # ?apost
        \<and> ensure_outputDir no_ffmpeg_env ex_audio_plan start = (Inr (), start)
        \<and> run_sections no_ffmpeg_env ex_audio_plan ?apre start = (Inr (), start)
        \<and> truthy (get_prop ex_audio_plan ''audio'')
        \<and> handle_sub no_ffmpeg_env KWav (get_prop (get_prop ex_audio_plan ''audio'') ''wav'') start
            = (Inr (), start)
        \<and> truthy (get_prop (get_prop ex_audio_plan ''audio'') ''mp3'')
        \<and> items_of (get_prop (get_prop ex_audio_plan ''audio'') ''mp3'') = [] @ ex_mp3 # [ex_mp3_late]
        \<and> handle_items no_ffmpeg_env KMp3 0 [] start = (Inr (), start)
        \<and> handle_item no_ffmpeg_env KMp3 (length ([] :: jsval list)) ex_mp3 start = (Inl ?f, ?v)"
    by (simp add: handle_item_def and_then_def first_prop_def loc_def is_ascii_ws_def ws_codes_def
        ensureDirFor_def perform_def seq_def emit_def info_def failure_lines_def error_lines_def
        start_def simple_dirname_def sections_def ensure_outputDir_def run_section_def
        ex_audio_plan_def items_of_def ex_mp3_def handle_sub_def validateMP3_def audio_opts_def
        generateMP3_def generateWAV_def no_ffmpeg_env_def Let_def)
  have r2: "runFromConfig no_ffmpeg_env ex_audio_plan start = (Inl ?f, ?v)"
    by (rule C2_fail_fast [THEN conjunct2, THEN conjunct2, THEN conjunct2, THEN conjunct2,
          THEN conjunct2, THEN conjunct2, THEN conjunct2, THEN conjunct2, THEN conjunct2,
          THEN conjunct2, THEN conjunct2, THEN conjunct1, rule_format, OF m])
  from r1 r2 show ?thesis
    by simp
qed

text \<open>
  C3, as stated: every field validation of an item happens before any side effect of that
  item. The key check on the CSV \<open>data\<close> field is made inside \<^verbatim>\<open>generateCSV\<close>, which the
  handler calls after \<^verbatim>\<open>ensureDirFor\<close>: for the item
  \<open>{path: "d/x.csv", data: [{a: 1}, {b: 2}]}\<close> the directory \<open>d\<close> is made and then the
  item fails on its data.
\<close>

theorem C3_csv_counterexample:
  "handle_item quiet_env KCsv 0
     (JObj [(''path'', JStr ''d/x.csv''),
            (''data'', JArr [JObj [(''a'', JNum (Fin 1))], JObj [(''b'', JNum (Fin 2))]])])
     start
   = (Inl (Error ''All records must have the same keys and key count''),
      \<lparr>trace = [MkDir ''d'',
                LogError ''[file-fabric] ERROR: CSV generation failed at index 0'',
                LogError ''Cause: All records must have the same keys and key count''],
       faker_calls = 0\<rparr>)"
  by (simp add: run_defs validateCSV_def generateCSV_def Object_keys_def)

text \<open>
  C3, amended: every check that the handler itself makes on an item's fields happens before
  any side effect of that item. When the handler's validation of an item fails, the item
  only prints its error lines: no directory is made and no generator is called. For the
  plan \<open>{pdf: {path: "x.pdf", lines: -1}}\<close> validation fails at \<open>pdf[0].lines\<close> and the
  whole run consists of the two error lines, in every environment.
\<close>

theorem C3_handler_checks_before_effects:
  "(validate k idx item = Inl e \<longrightarrow>
      handle_item env k idx item w = (Inl e, emit (failure_lines k idx e) w)
      \<and> list_all is_print (failure_lines k idx e))
   \<and> validate KPdf 0 (JObj [(''path'', JStr ''x.pdf''), (''lines'', JNum (Fin (- 1)))])
       = Inl (Error ''pdf[0].lines must be a positive integer'')
   \<and> runFromConfig env
        (JObj [(''pdf'', JObj [(''path'', JStr ''x.pdf''), (''lines'', JNum (Fin (- 1)))])]) w
       = (Inl (Error ''pdf[0].lines must be a positive integer''),
          emit [LogError ''[file-fabric] ERROR: PDF generation failed at index 0'',
                LogError ''Cause: pdf[0].lines must be a positive integer''] w)"
proof (intro conjI impI)
  assume "validate k idx item = Inl e"
  then show "handle_item env k idx item w = (Inl e, emit (failure_lines k idx e) w)"
    by (rule handle_item_invalid)
next
  show "list_all is_print (failure_lines k idx e)"
    by (rule failure_lines_print)
next
  show "validate KPdf 0 (JObj [(''path'', JStr ''x.pdf''), (''lines'', JNum (Fin (- 1)))])
       = Inl (Error ''pdf[0].lines must be a positive integer'')"
    by (rule validate_pdf_example)
next
  let ?item = "JObj [(''path'', JStr ''x.pdf''), (''lines'', JNum (Fin (- 1)))]"
  have h: "handlePDF env ?item w
      = (Inl (Error ''pdf[0].lines must be a positive integer''),
         emit (failure_lines KPdf 0 (Error ''pdf[0].lines must be a positive integer'')) w)"
    using handle_item_invalid [OF validate_pdf_example, of env w]
    by (simp add: handlePDF_def handle_section_def items_of_def)
  have o: "ensure_outputDir env (JObj [(''pdf'', ?item)]) w = (Inr (), w)"
    by (simp add: ensure_outputDir_def)
  show "runFromConfig env (JObj [(''pdf'', ?item)]) w
       = (Inl (Error ''pdf[0].lines must be a positive integer''),
          emit [LogError ''[file-fabric] ERROR: PDF generation failed at index 0'',
                LogError ''Cause: pdf[0].lines must be a positive integer''] w)"
    by (simp add: runFromConfig_def seq_def o sections_pdf_only h failure_lines_def error_lines_def)
qed

theorem C3_handler_checks_before_effects_witness:
  "handle_item quiet_env KPdf 0
     (JObj [(''path'', JStr ''x.pdf''), (''lines'', JNum (Fin (- 1)))]) start
   = (Inl (Error ''pdf[0].lines must be a positive integer''),
      \<lparr>trace = [LogError ''[file-fabric] ERROR: PDF generation failed at index 0'',
                LogError ''Cause: pdf[0].lines must be a positive integer''],
       faker_calls = 0\<rparr>)"
proof -
  have v: "validate KPdf 0 (JObj [(''path'', JStr ''x.pdf''), (''lines'', JNum (Fin (- 1)))])
       = Inl (Error ''pdf[0].lines must be a positive integer'')"
    by (rule validate_pdf_example)
  show ?thesis
    using v C3_handler_checks_before_effects [where k = KPdf and idx = 0
        and item = "JObj [(''path'', JStr ''x.pdf''), (''lines'', JNum (Fin (- 1)))]"
        and e = "Error ''pdf[0].lines must be a positive integer''"
        and env = quiet_env and w = start]
    by (simp add: emit_def failure_lines_def error_lines_def start_def)
qed

text \<open>
  C4. With a non-empty \<open>texts\<close> of length \<open>L\<close> and a requested count \<open>N\<close>, the content has
  \<open>N\<close> elements and the element at position \<open>i < N\<close> is \<open>texts[i mod L]\<close>; position 0 is
  \<open>texts[0]\<close>. This holds of the lines of a TXT, PDF or DOCX file and of a PPTX slide
  (\<open>text_content\<close>), of the rows of an XLSX sheet after its header row (\<open>sheet_rows\<close>), and
  of what each generator hands to its writer: for a slide anywhere in a deck and a sheet
  anywhere in a book, the writer receives what the slides (sheets) before it give, then this
  one with exactly the cycled content, then what the ones after it give.
\<close>

theorem C4_cyclic_content:
  assumes "texts \<noteq> []" and "rows \<noteq> []" and "i < N"
  shows "length (fst (text_content env (of_nat N) (Some texts) k)) = N
    \<and> fst (text_content env (of_nat N) (Some texts) k) ! i = Some (texts ! (i mod length texts))
    \<and> fst (text_content env (of_nat N) (Some texts) k) ! 0 = Some (texts ! 0)
    \<and> length (tl (fst (sheet_rows env (of_nat N) (Some rows) k))) = N
    \<and> tl (fst (sheet_rows env (of_nat N) (Some rows) k)) ! i = Some (rows ! (i mod length rows))
    \<and> tl (fst (sheet_rows env (of_nat N) (Some rows) k)) ! 0 = Some (rows ! 0)
    \<and> generateTXT env path (of_nat N) (Some texts) w =
        perform env (WriteFile path (PlainText (join [CHR 0x0A, CHR 0x0A]
          (map (\<lambda>j. texts ! (j mod length texts)) [0 ..< N])))) w
    \<and> generatePDF env path title fontSize (of_nat N) (Some texts) w =
        perform env (WritePDF path (or_default ''Fake PDF'' title) (or_default 20 fontSize)
          (map (\<lambda>j. Some (texts ! (j mod length texts))) [0 ..< N])) w
    \<and> generateDOCX env path (of_nat N) (Some texts) w =
        seq (perform env (Encode (DocxDoc (map (\<lambda>j. Some (texts ! (j mod length texts))) [0 ..< N]))) w)
          (perform env (WriteFile path
             (DocxDoc (map (\<lambda>j. Some (texts ! (j mod length texts))) [0 ..< N]))))
    \<and> generatePPTX env path (slides @ (slideTitle, of_nat N, Some texts) # slides') w =
        perform env (WritePPTX path
          (fst (slides_content env slides (faker_calls w))
             @ (slideTitle, map (\<lambda>j. Some (texts ! (j mod length texts))) [0 ..< N])
             # fst (slides_content env slides' (snd (slides_content env slides (faker_calls w))))))
          (w\<lparr>faker_calls :=
               snd (slides_content env slides' (snd (slides_content env slides (faker_calls w))))\<rparr>)
    \<and> generateXLSX env path (sheets @ (sheetName, of_nat N, Some rows) # sheets') w =
        perform env (WriteXLSX path
          (fst (sheets_content env sheets (faker_calls w))
             @ (sheetName, Some [JStr ''Name'', JStr ''Email'']
                  # map (\<lambda>j. Some (rows ! (j mod length rows))) [0 ..< N])
             # fst (sheets_content env sheets' (snd (sheets_content env sheets (faker_calls w))))))
          (w\<lparr>faker_calls :=
               snd (sheets_content env sheets' (snd (sheets_content env sheets (faker_calls w))))\<rparr>)"
proof -
  have N: "0 < N"
    using assms(3) by simp
  have w: "w\<lparr>faker_calls := faker_calls w\<rparr> = w"
    by simp
  show ?thesis
    using assms N
    by (simp add: text_content_cycle sheet_rows_cycle generateTXT_def generatePDF_def
        generateDOCX_def generatePPTX_def generateXLSX_def line_text_def comp_def w
        or_default_def slides_content_at sheets_content_at)
qed

theorem C4_cyclic_content_witness:
  "fst (text_content quiet_env 3 (Some [''x'', ''y'']) 0) = [Some ''x'', Some ''y'', Some ''x'']
   \<and> generateTXT quiet_env ''a.txt'' 3 (Some [''x'', ''y'']) start
     = (Inr (),
        \<lparr>trace = [WriteFile ''a.txt''
                    (PlainText (''x'' @ [CHR 0x0A, CHR 0x0A] @ ''y'' @ [CHR 0x0A, CHR 0x0A] @ ''x''))],
         faker_calls = 0\<rparr>)
   \<and> generatePPTX quiet_env ''d.pptx'' [(''A'', 1, Some [''a'']), (''B'', 1, Some [''b''])] start
     = (Inr (),
        \<lparr>trace = [WritePPTX ''d.pptx'' [(''A'', [Some ''a'']), (''B'', [Some ''b''])]],
         faker_calls = 0\<rparr>)"
proof -
  have t: "[''x'', ''y''] \<noteq> ([] :: string list)" and r: "[[JStr ''a'']] \<noteq> []" and i: "(2 :: nat) < 3"
    by simp_all
  have "generateTXT quiet_env ''a.txt'' (of_nat 3) (Some [''x'', ''y'']) start =
        perform quiet_env (WriteFile ''a.txt'' (PlainText (join [CHR 0x0A, CHR 0x0A]
          (map (\<lambda>j. [''x'', ''y''] ! (j mod length [''x'', ''y''])) [0 ..< 3])))) start"
    using C4_cyclic_content [OF t r i, of quiet_env 0 "''a.txt''" start] by blast
  then have g: "generateTXT quiet_env ''a.txt'' 3 (Some [''x'', ''y'']) start
     = (Inr (),
        \<lparr>trace = [WriteFile ''a.txt''
                    (PlainText (''x'' @ [CHR 0x0A, CHR 0x0A] @ ''y'' @ [CHR 0x0A, CHR 0x0A] @ ''x''))],
         faker_calls = 0\<rparr>)"
    by (simp add: perform_def quiet_env_def start_def upt_rec)
  have c: "fst (text_content quiet_env 3 (Some [''x'', ''y'']) 0) = [Some ''x'', Some ''y'', Some ''x'']"
    by (simp add: text_content_cycle upt_rec)
  have b: "[''b''] \<noteq> ([] :: string list)" and j: "(0 :: nat) < 1"
    by simp_all
  have "generatePPTX quiet_env ''d.pptx'' ([(''A'', 1, Some [''a''])] @ (''B'', of_nat 1, Some [''b'']) # []) start =
        perform quiet_env (WritePPTX ''d.pptx''
          (fst (slides_content quiet_env [(''A'', 1, Some [''a''])] (faker_calls start))
             @ (''B'', map (\<lambda>j. Some ([''b''] ! (j mod length [''b'']))) [0 ..< 1])
             # fst (slides_content quiet_env []
                    (snd (slides_content quiet_env [(''A'', 1, Some [''a''])] (faker_calls start))))))
          (start\<lparr>faker_calls :=
               snd (slides_content quiet_env []
                     (snd (slides_content quiet_env [(''A'', 1, Some [''a''])] (faker_calls start))))\<rparr>)"
    using C4_cyclic_content [OF b r j, where env = quiet_env and path = "''d.pptx''" and w = start
        and slides = "[(''A'', 1, Some [''a''])]" and slideTitle = "''B''" and slides' = "[]"]
    by blast
  then have d: "generatePPTX quiet_env ''d.pptx'' [(''A'', 1, Some [''a'']), (''B'', 1, Some [''b''])] start
     = (Inr (),
        \<lparr>trace = [WritePPTX ''d.pptx'' [(''A'', [Some ''a'']), (''B'', [Some ''b''])]],
         faker_calls = 0\<rparr>)"
    by (simp add: perform_def quiet_env_def start_def text_content_cycle upt_rec)
  from c g d show ?thesis
    by simp
qed

text \<open>
  C5. A CSV item with a valid path, a valid \<open>rows\<close> count and a non-empty \<open>data\<close> array of
  objects passes the handler's validation, which prints the notice that \<open>rows\<close> will be
  ignored; when the records pass the key check and the directory and the writer do not
  fail, the item succeeds and the writer receives exactly the records of \<open>data\<close>, headed
  by the keys of the first one.
\<close>

theorem C5_csv_data_wins:
  assumes "get_prop item ''path'' = JStr p" and "\<not> trim_empty p"
    and "get_prop item ''rows'' = JNum (Fin r)" and "0 < r" and "of_int \<lfloor>r\<rfloor> = r"
    and "get_prop item ''data'' = JArr recs" and "recs \<noteq> []"
    and "list_all (\<lambda>x. truthy x \<and> typeof_object x) recs"
    and "data = map entries_of recs"
    and "check_records (Object_keys (hd data)) data = Inr ()"
    and "fails env (trace w @ info (csv_notice idx)) (MkDir (dirname env p)) = None"
    and "fails env (trace w @ info (csv_notice idx) @ [MkDir (dirname env p)])
           (WriteCSV p (Object_keys (hd data)) data) = None"
  shows "validate KCsv idx item = Inr ([csv_notice idx], CallCSV p (Some r) (Some data))
    \<and> handle_item env KCsv idx item w
        = (Inr (),
           emit (info (csv_notice idx)
                 @ [MkDir (dirname env p), WriteCSV p (Object_keys (hd data)) data]
                 @ info (''Generated CSV '' @ arrow @ '' '' @ p)) w)"
proof -
  have v: "validate KCsv idx item = Inr ([csv_notice idx], CallCSV p (Some r) (Some data))"
    using assms(1-6,8,9) validateCSV_both by blast
  have ne: "data \<noteq> []"
    using assms(7,9) by simp
  then obtain first rest where d: "data = first # rest"
    by (cases data) auto
  have g: "generateCSV env p (Some r) (Some data) w'
      = perform env (WriteCSV p (Object_keys (hd data)) data) w'" for w'
    using assms(10) d by (simp add: generateCSV_def write_records_def)
  have run: "handle_item env KCsv idx item w
        = (Inr (),
           emit (info (csv_notice idx)
                 @ [MkDir (dirname env p), WriteCSV p (Object_keys (hd data)) data]
                 @ info (''Generated CSV '' @ arrow @ '' '' @ p)) w)"
    using assms(11,12)
    by (simp add: handle_item_def v [simplified] ensureDirFor_def perform_def seq_def emit_def g
        info_def)
  from v run show ?thesis
    by simp
qed

theorem C5_csv_data_wins_witness:
  "handle_item quiet_env KCsv 0 ex_csv start
     = (Inr (),
        \<lparr>trace = [Log (''[file-fabric] csv[0]: '' @ sq @ ''data'' @ sq @ '' provided, ''
                         @ sq @ ''rows'' @ sq @ '' will be ignored.''),
                  MkDir ''out'',
                  WriteCSV ''out/data.csv'' [''a''] [[(''a'', JNum (Fin 1))]],
                  Log (''[file-fabric] Generated CSV '' @ arrow @ '' out/data.csv'')],
         faker_calls = 0\<rparr>)"
proof -
  have h: "get_prop ex_csv ''path'' = JStr ''out/data.csv''" "\<not> trim_empty ''out/data.csv''"
    "get_prop ex_csv ''rows'' = JNum (Fin 5)" "(0 :: rat) < 5" "of_int \<lfloor>5 :: rat\<rfloor> = (5 :: rat)"
    "get_prop ex_csv ''data'' = JArr [JObj [(''a'', JNum (Fin 1))]]"
    "[JObj [(''a'', JNum (Fin 1))]] \<noteq> []"
    "list_all (\<lambda>x. truthy x \<and> typeof_object x) [JObj [(''a'', JNum (Fin 1))]]"
    "[[(''a'', JNum (Fin 1))]] = map entries_of [JObj [(''a'', JNum (Fin 1))]]"
    "check_records (Object_keys (hd [[(''a'', JNum (Fin 1))]])) [[(''a'', JNum (Fin 1))]] = Inr ()"
    "fails quiet_env (trace start @ info (csv_notice 0)) (MkDir (dirname quiet_env ''out/data.csv''))
       = None"
    "fails quiet_env
       (trace start @ info (csv_notice 0) @ [MkDir (dirname quiet_env ''out/data.csv'')])
       (WriteCSV ''out/data.csv'' (Object_keys (hd [[(''a'', JNum (Fin 1))]]))
          [[(''a'', JNum (Fin 1))]]) = None"
    by (simp_all add: ex_csv_def is_ascii_ws_def ws_codes_def Object_keys_def quiet_env_def)
  show ?thesis
    using C5_csv_data_wins [OF h]
    by (simp add: emit_def info_def csv_notice_def quiet_env_def start_def simple_dirname_def
        Object_keys_def)
qed

text \<open>
  C6. For a non-empty \<open>data\<close> (whose records, being objects, have distinct keys),
  \<^verbatim>\<open>generateCSV\<close> fails, before writing anything, when some record's key set differs from
  the key set of the first record, and goes on to write the records when every record has
  the first record's key set; the order of the keys plays no part.
\<close>

theorem C6_csv_key_sets:
  assumes "data \<noteq> []" and "\<forall>r \<in> set data. distinct (Object_keys r)"
  shows "((\<exists>r \<in> set data. set (Object_keys r) \<noteq> set (Object_keys (hd data))) \<longrightarrow>
            generateCSV env path rows (Some data) w
              = (Inl (Error ''All records must have the same keys and key count''), w))
       \<and> ((\<forall>r \<in> set data. set (Object_keys r) = set (Object_keys (hd data))) \<longrightarrow>
            generateCSV env path rows (Some data) w
              = perform env (WriteCSV path (Object_keys (hd data)) data) w)"
proof -
  have hd_in: "hd data \<in> set data"
    using assms(1) by simp
  then have dk: "distinct (Object_keys (hd data))"
    using assms(2) by blast
  have ok: "check_records (Object_keys (hd data)) data = Inr () \<longleftrightarrow>
      (\<forall>r \<in> set data. set (Object_keys r) = set (Object_keys (hd data)))"
    unfolding check_records_ok_iff
    using assms(2) dk same_keys_iff by blast
  have wr: "write_records env path data w = perform env (WriteCSV path (Object_keys (hd data)) data) w"
    using assms(1) by (cases data) (simp_all add: write_records_def)
  show ?thesis
  proof (intro conjI impI)
    assume "\<exists>r \<in> set data. set (Object_keys r) \<noteq> set (Object_keys (hd data))"
    then have "check_records (Object_keys (hd data)) data \<noteq> Inr ()"
      using ok by blast
    then have "check_records (Object_keys (hd data)) data
        = Inl (Error ''All records must have the same keys and key count'')"
      using check_records_cases by blast
    then show "generateCSV env path rows (Some data) w
        = (Inl (Error ''All records must have the same keys and key count''), w)"
      using assms(1) by (simp add: generateCSV_def)
  next
    assume "\<forall>r \<in> set data. set (Object_keys r) = set (Object_keys (hd data))"
    then have "check_records (Object_keys (hd data)) data = Inr ()"
      using ok by blast
    then show "generateCSV env path rows (Some data) w
        = perform env (WriteCSV path (Object_keys (hd data)) data) w"
      using assms(1) wr by (simp add: generateCSV_def)
  qed
qed

theorem C6_csv_key_sets_witness:
  "generateCSV quiet_env ''p.csv'' None
     (Some [[(''name'', JStr ''A''), (''email'', JStr ''a@x'')], [(''name'', JStr ''B'')]]) start
     = (Inl (Error ''All records must have the same keys and key count''), start)
   \<and> generateCSV quiet_env ''p.csv'' None
     (Some [[(''name'', JStr ''A''), (''email'', JStr ''a@x'')],
            [(''email'', JStr ''b@x''), (''name'', JStr ''B'')]]) start
     = (Inr (),
        \<lparr>trace = [WriteCSV ''p.csv'' [''name'', ''email'']
                    [[(''name'', JStr ''A''), (''email'', JStr ''a@x'')],
                     [(''email'', JStr ''b@x''), (''name'', JStr ''B'')]]],
         faker_calls = 0\<rparr>)"
proof -
  let ?bad = "[[(''name'', JStr ''A''), (''email'', JStr ''a@x'')], [(''name'', JStr ''B'')]]"
  let ?good = "[[(''name'', JStr ''A''), (''email'', JStr ''a@x'')],
            [(''email'', JStr ''b@x''), (''name'', JStr ''B'')]]"
  have b1: "?bad \<noteq> []" and b2: "\<forall>r \<in> set ?bad. distinct (Object_keys r)"
    and b3: "\<exists>r \<in> set ?bad. set (Object_keys r) \<noteq> set (Object_keys (hd ?bad))"
    by (auto simp add: Object_keys_def)
  have g1: "?good \<noteq> []" and g2: "\<forall>r \<in> set ?good. distinct (Object_keys r)"
    and g3: "\<forall>r \<in> set ?good. set (Object_keys r) = set (Object_keys (hd ?good))"
    by (auto simp add: Object_keys_def)
  have "generateCSV quiet_env ''p.csv'' None (Some ?bad) start
     = (Inl (Error ''All records must have the same keys and key count''), start)"
    using C6_csv_key_sets [OF b1 b2, of quiet_env "''p.csv''" None start] b3 by blast
  moreover have "generateCSV quiet_env ''p.csv'' None (Some ?good) start
     = perform quiet_env (WriteCSV ''p.csv'' (Object_keys (hd ?good)) ?good) start"
    using C6_csv_key_sets [OF g1 g2, of quiet_env "''p.csv''" None start] g3 by blast
  ultimately show ?thesis
    by (simp add: perform_def quiet_env_def start_def Object_keys_def)
qed

text \<open>
  C7. The positive-integer validator rejects 0, -1, 1.5, NaN, Infinity and the string "5"
  (a string is not coerced to a number), and accepts 1 and 1000000, returning them.
\<close>

theorem C7_expectPositiveInt_values:
  "expectPositiveInt (JNum (Fin 0)) wh = Inl (Error (wh @ '' must be a positive integer''))
   \<and> expectPositiveInt (JNum (Fin (- 1))) wh = Inl (Error (wh @ '' must be a positive integer''))
   \<and> expectPositiveInt (JNum (Fin (3 / 2))) wh = Inl (Error (wh @ '' must be a positive integer''))
   \<and> expectPositiveInt (JNum NaN) wh = Inl (Error (wh @ '' must be a positive integer''))
   \<and> expectPositiveInt (JNum PosInf) wh = Inl (Error (wh @ '' must be a positive integer''))
   \<and> expectPositiveInt (JStr ''5'') wh = Inl (Error (wh @ '' must be a positive integer''))
   \<and> expectPositiveInt (JNum (Fin 1)) wh = Inr 1
   \<and> expectPositiveInt (JNum (Fin 1000000)) wh = Inr 1000000"
proof -
  have "\<lfloor>3 / 2 :: rat\<rfloor> = 1"
    by (simp add: floor_eq_iff)
  then show ?thesis
    by simp
qed

text \<open>
  C8. For every kind, a section (or sub-section) given as the bare request object \<open>r\<close> is
  processed exactly as the one-element list \<open>[r]\<close>: the handler returns the same outcome
  and leaves the same world, hence the same validation result, the same directory and
  generator effects and the same printed lines. Both process \<open>r\<close> as the item of index 0.
\<close>

theorem C8_single_object_as_list:
  "handleJSON env (JObj r) w = handleJSON env (JArr [JObj r]) w
   \<and> handlePDF env (JObj r) w = handlePDF env (JArr [JObj r]) w
   \<and> handleTXT env (JObj r) w = handleTXT env (JArr [JObj r]) w
   \<and> handleDOCX env (JObj r) w = handleDOCX env (JArr [JObj r]) w
   \<and> handlePPTX env (JObj r) w = handlePPTX env (JArr [JObj r]) w
   \<and> handleXLSX env (JObj r) w = handleXLSX env (JArr [JObj r]) w
   \<and> handleCSV env (JObj r) w = handleCSV env (JArr [JObj r]) w
   \<and> handleVideo env (JObj r) w = handleVideo env (JArr [JObj r]) w
   \<and> handle_sub env k (JObj r) w = handle_sub env k (JArr [JObj r]) w
   \<and> handleImages env (JObj [(''jpg'', JObj r)]) w = handleImages env (JObj [(''jpg'', JArr [JObj r])]) w
   \<and> handleImages env (JObj [(''png'', JObj r)]) w = handleImages env (JObj [(''png'', JArr [JObj r])]) w
   \<and> handleImages env (JObj [(''custom'', JObj r)]) w
       = handleImages env (JObj [(''custom'', JArr [JObj r])]) w
   \<and> handleAudio env (JObj [(''wav'', JObj r)]) w = handleAudio env (JObj [(''wav'', JArr [JObj r])]) w
   \<and> handleAudio env (JObj [(''mp3'', JObj r)]) w = handleAudio env (JObj [(''mp3'', JArr [JObj r])]) w
   \<and> handleArchives env (JObj [(''zip'', JObj r)]) w
       = handleArchives env (JObj [(''zip'', JArr [JObj r])]) w
   \<and> handleArchives env (JObj [(''rar'', JObj r)]) w
       = handleArchives env (JObj [(''rar'', JArr [JObj r])]) w
   \<and> handle_section env k (JArr [JObj r]) w = handle_item env k 0 (JObj r) w"
proof -
  have s: "handle_section env k (JObj r) = handle_section env k (JArr [JObj r])" for k
    by (rule ext) (simp add: handle_section_def items_of_def)
  have b: "handle_sub env k (JObj r) = handle_sub env k (JArr [JObj r])" for k
    by (rule ext) (simp add: handle_sub_def s)
  have i: "handle_section env k (JArr [JObj r]) w = handle_item env k 0 (JObj r) w"
    by (simp add: handle_section_def items_of_def split: prod.splits sum.splits)
  show ?thesis
    by (simp add: handleJSON_def handlePDF_def handleTXT_def handleDOCX_def handlePPTX_def
        handleXLSX_def handleCSV_def handleVideo_def handleImages_def handleAudio_def
        handleArchives_def s b i)
qed

text \<open>
  C9. A successful \<^verbatim>\<open>generateMP3\<close> call with output path \<open>P\<close> has done exactly three
  things: synthesised the WAV data, written it to the path \<open>P\<close> with its first \<open>.mp3\<close>
  replaced by \<open>.wav\<close>, and transcoded that file to \<open>P\<close>. The WAV file is not deleted: the
  trace has no \<open>Unlink\<close>. The WAV path is \<open>u.wav v\<close> when \<open>u.mp3 v\<close> is the split of \<open>P\<close> at
  its leftmost \<open>.mp3\<close>, and \<open>P\<close> itself when \<open>P\<close> does not contain \<open>.mp3\<close>.
\<close>

theorem C9_mp3_leaves_wav:
  "(generateMP3 env P lengthSeconds opts w = (Inr (), w') \<longrightarrow>
      trace w' = trace w
        @ [Encode (WavData lengthSeconds opts),
           WriteFile (replace_first ''.mp3'' ''.wav'' P) (WavData lengthSeconds opts),
           Transcode (replace_first ''.mp3'' ''.wav'' P) P]
      \<and> Unlink (replace_first ''.mp3'' ''.wav'' P) \<notin> set (drop (length (trace w)) (trace w')))
   \<and> (P = u @ ''.mp3'' @ v \<and> (\<forall>u' v'. P = u' @ ''.mp3'' @ v' \<longrightarrow> length u \<le> length u') \<longrightarrow>
      replace_first ''.mp3'' ''.wav'' P = u @ ''.wav'' @ v)
   \<and> (\<not> sublist ''.mp3'' P \<longrightarrow> replace_first ''.mp3'' ''.wav'' P = P)"
proof (rule conjI [OF impI conjI [OF impI impI]])
  assume ok: "generateMP3 env P lengthSeconds opts w = (Inr (), w')"
  let ?wav = "replace_first ''.mp3'' ''.wav'' P"
  from ok obtain w2 where
    g: "generateWAV env ?wav lengthSeconds opts w = (Inr (), w2)" and
    t: "perform env (Transcode ?wav P) w2 = (Inr (), w')"
    unfolding generateMP3_def Let_def by (blast dest: seq_Inr)
  from g have pos: "\<not> lengthSeconds \<le> 0"
    by (auto simp add: generateWAV_def split: if_splits)
  with g obtain w1 where
    e: "perform env (Encode (WavData lengthSeconds opts)) w = (Inr (), w1)" and
    f: "perform env (WriteFile ?wav (WavData lengthSeconds opts)) w1 = (Inr (), w2)"
    unfolding generateWAV_def by (auto dest: seq_Inr)
  have tr: "trace w' = trace w
        @ [Encode (WavData lengthSeconds opts), WriteFile ?wav (WavData lengthSeconds opts),
           Transcode ?wav P]"
    using perform_Inr [OF e] perform_Inr [OF f] perform_Inr [OF t] by simp
  then show "trace w' = trace w
        @ [Encode (WavData lengthSeconds opts), WriteFile ?wav (WavData lengthSeconds opts),
           Transcode ?wav P]
      \<and> Unlink ?wav \<notin> set (drop (length (trace w)) (trace w'))"
    by simp
next
  assume "P = u @ ''.mp3'' @ v \<and> (\<forall>u' v'. P = u' @ ''.mp3'' @ v' \<longrightarrow> length u \<le> length u')"
  then show "replace_first ''.mp3'' ''.wav'' P = u @ ''.wav'' @ v"
    using replace_first_at [of u "''.mp3''" v "''.wav''"] by blast
next
  assume "\<not> sublist ''.mp3'' P"
  then show "replace_first ''.mp3'' ''.wav'' P = P"
    by (rule replace_first_absent)
qed

theorem C9_mp3_leaves_wav_witness:
  "generateMP3 quiet_env ''out/a.mp3'' 2 None start
     = (Inr (),
        \<lparr>trace = [Encode (WavData 2 None), WriteFile ''out/a.wav'' (WavData 2 None),
                  Transcode ''out/a.wav'' ''out/a.mp3''],
         faker_calls = 0\<rparr>)
   \<and> replace_first ''.mp3'' ''.wav'' ''a.mp3.mp3'' = ''a.wav.mp3''
   \<and> generateMP3 quiet_env ''clip'' 2 None start
     = (Inr (),
        \<lparr>trace = [Encode (WavData 2 None), WriteFile ''clip'' (WavData 2 None),
                  Transcode ''clip'' ''clip''],
         faker_calls = 0\<rparr>)"
proof -
  let ?w = "\<lparr>trace = [Encode (WavData 2 None), WriteFile ''out/a.wav'' (WavData 2 None),
                  Transcode ''out/a.wav'' ''out/a.mp3''],
         faker_calls = 0\<rparr>"
  have ok: "generateMP3 quiet_env ''out/a.mp3'' 2 None start = (Inr (), ?w)"
    by (simp add: generateMP3_def generateWAV_def seq_def perform_def quiet_env_def start_def
        Let_def)
  have "trace ?w = trace start
        @ [Encode (WavData 2 None),
           WriteFile (replace_first ''.mp3'' ''.wav'' ''out/a.mp3'') (WavData 2 None),
           Transcode (replace_first ''.mp3'' ''.wav'' ''out/a.mp3'') ''out/a.mp3'']"
    using ok C9_mp3_leaves_wav [where env = quiet_env and P = "''out/a.mp3''"
        and lengthSeconds = 2 and opts = None and w = start and w' = ?w]
    by blast
  have first: "\<forall>u' v'. ''a.mp3.mp3'' = u' @ ''.mp3'' @ v' \<longrightarrow> length ''a'' \<le> length u'"
  proof (intro allI impI)
    fix u' v' :: string
    assume "''a.mp3.mp3'' = u' @ ''.mp3'' @ v'"
    then show "length ''a'' \<le> length u'"
      by (cases u') auto
  qed
  have r: "replace_first ''.mp3'' ''.wav'' ''a.mp3.mp3'' = ''a'' @ ''.wav'' @ ''.mp3''"
    using first C9_mp3_leaves_wav [where P = "''a.mp3.mp3''" and u = "''a''" and v = "''.mp3''"]
    by simp
  have no: "\<not> sublist ''.mp3'' ''clip''"
    by (simp add: sublist_Cons_right)
  have same: "replace_first ''.mp3'' ''.wav'' ''clip'' = ''clip''"
    using no C9_mp3_leaves_wav [where P = "''clip''"] by blast
  have clip: "generateMP3 quiet_env ''clip'' 2 None start
     = (Inr (),
        \<lparr>trace = [Encode (WavData 2 None), WriteFile ''clip'' (WavData 2 None),
                  Transcode ''clip'' ''clip''],
         faker_calls = 0\<rparr>)"
    by (simp add: generateMP3_def same generateWAV_def seq_def perform_def quiet_env_def start_def
        Let_def)
  from ok r clip show ?thesis
    by simp
qed

text \<open>
  C10. For the five content-cycling generators (TXT, PDF, DOCX, any slide of a PPTX deck,
  any sheet of an XLSX book) an explicitly empty \<open>texts\<close> gives exactly what an omitted
  \<open>texts\<close> gives, and what it gives is one filler value for every requested line or row
  (for a count \<open>lines\<close>, every \<open>i < lines\<close>): the theorem states what each generator hands
  to its writer. The cyclic read \<open>texts[i % texts.length]\<close> is not made with the empty
  array: it would put \<open>undefined\<close> (\<open>None\<close>) into the content, and the content has none.
\<close>

theorem C10_empty_texts_as_omitted:
  "text_content env lines (Some []) k = text_content env lines None k
   \<and> fst (text_content env lines (Some []) k)
       = map (\<lambda>i. Some (sentence env (k + i))) [0 ..< nat \<lceil>lines\<rceil>]
   \<and> None \<notin> set (fst (text_content env lines (Some []) k))
   \<and> sheet_rows env lines (Some []) k = sheet_rows env lines None k
   \<and> fst (sheet_rows env lines (Some []) k)
       = Some [JStr ''Name'', JStr ''Email'']
           # map (\<lambda>i. Some [JStr (fullName env (k + 2 * i)), JStr (email env (k + 2 * i + 1))])
               [0 ..< nat \<lceil>lines\<rceil>]
   \<and> None \<notin> set (fst (sheet_rows env lines (Some []) k))
   \<and> generateTXT env path lines (Some []) w = generateTXT env path lines None w
   \<and> generatePDF env path title fontSize lines (Some []) w = generatePDF env path title fontSize lines None w
   \<and> generateDOCX env path lines (Some []) w = generateDOCX env path lines None w
   \<and> generatePPTX env path (slides @ (slideTitle, lines, Some []) # slides') w
       = generatePPTX env path (slides @ (slideTitle, lines, None) # slides') w
   \<and> generateXLSX env path (sheets @ (sheetName, lines, Some []) # sheets') w
       = generateXLSX env path (sheets @ (sheetName, lines, None) # sheets') w
   \<and> generateTXT env path lines (Some []) w =
        perform env (WriteFile path (PlainText (join [CHR 0x0A, CHR 0x0A]
          (map (\<lambda>i. sentence env (faker_calls w + i)) [0 ..< nat \<lceil>lines\<rceil>]))))
          (w\<lparr>faker_calls := faker_calls w + nat \<lceil>lines\<rceil>\<rparr>)
   \<and> generatePDF env path title fontSize lines (Some []) w =
        perform env (WritePDF path (or_default ''Fake PDF'' title) (or_default 20 fontSize)
          (map (\<lambda>i. Some (sentence env (faker_calls w + i))) [0 ..< nat \<lceil>lines\<rceil>]))
          (w\<lparr>faker_calls := faker_calls w + nat \<lceil>lines\<rceil>\<rparr>)
   \<and> generateDOCX env path lines (Some []) w =
        seq (perform env
               (Encode (DocxDoc (map (\<lambda>i. Some (sentence env (faker_calls w + i)))
                  [0 ..< nat \<lceil>lines\<rceil>])))
               (w\<lparr>faker_calls := faker_calls w + nat \<lceil>lines\<rceil>\<rparr>))
          (perform env
             (WriteFile path (DocxDoc (map (\<lambda>i. Some (sentence env (faker_calls w + i)))
                [0 ..< nat \<lceil>lines\<rceil>]))))
   \<and> generatePPTX env path (slides @ (slideTitle, lines, Some []) # slides') w =
        perform env (WritePPTX path
          (fst (slides_content env slides (faker_calls w))
             @ (slideTitle,
                map (\<lambda>i. Some (sentence env (snd (slides_content env slides (faker_calls w)) + i)))
                  [0 ..< nat \<lceil>lines\<rceil>])
             # fst (slides_content env slides'
                    (snd (slides_content env slides (faker_calls w)) + nat \<lceil>lines\<rceil>))))
          (w\<lparr>faker_calls :=
               snd (slides_content env slides'
                      (snd (slides_content env slides (faker_calls w)) + nat \<lceil>lines\<rceil>))\<rparr>)
   \<and> generateXLSX env path (sheets @ (sheetName, lines, Some []) # sheets') w =
        perform env (WriteXLSX path
          (fst (sheets_content env sheets (faker_calls w))
             @ (sheetName,
                Some [JStr ''Name'', JStr ''Email'']
                  # map (\<lambda>i. Some [JStr (fullName env
                                            (snd (sheets_content env sheets (faker_calls w)) + 2 * i)),
                                     JStr (email env
                                            (snd (sheets_content env sheets (faker_calls w)) + 2 * i + 1))])
                      [0 ..< nat \<lceil>lines\<rceil>])
             # fst (sheets_content env sheets'
                    (snd (sheets_content env sheets (faker_calls w)) + 2 * nat \<lceil>lines\<rceil>))))
          (w\<lparr>faker_calls :=
               snd (sheets_content env sheets'
                      (snd (sheets_content env sheets (faker_calls w)) + 2 * nat \<lceil>lines\<rceil>))\<rparr>)"
  by (simp add: text_content_filler sheet_rows_filler generateTXT_def generatePDF_def
      generateDOCX_def generatePPTX_def generateXLSX_def image_iff slides_content_at
      sheets_content_at line_text_def comp_def or_default_def)

theorem C10_empty_texts_as_omitted_witness:
  "generateTXT quiet_env ''a.txt'' 2 (Some []) start
     = (Inr (),
        \<lparr>trace = [WriteFile ''a.txt''
                    (PlainText (''Lorem ipsum.'' @ [CHR 0x0A, CHR 0x0A] @ ''Lorem ipsum.''))],
         faker_calls = 2\<rparr>)
   \<and> generateTXT quiet_env ''a.txt'' 2 None start
     = (Inr (),
        \<lparr>trace = [WriteFile ''a.txt''
                    (PlainText (''Lorem ipsum.'' @ [CHR 0x0A, CHR 0x0A] @ ''Lorem ipsum.''))],
         faker_calls = 2\<rparr>)
   \<and> generateXLSX quiet_env ''b.xlsx'' [(''S'', 1, Some [])] start
     = (Inr (),
        \<lparr>trace = [WriteXLSX ''b.xlsx''
                    [(''S'', [Some [JStr ''Name'', JStr ''Email''],
                              Some [JStr ''Ada Lovelace'', JStr ''ada@example.com'']])]],
         faker_calls = 2\<rparr>)"
proof -
  note c = C10_empty_texts_as_omitted [where env = quiet_env and w = start]
  have t: "generateTXT quiet_env ''a.txt'' 2 (Some []) start =
        perform quiet_env (WriteFile ''a.txt'' (PlainText (join [CHR 0x0A, CHR 0x0A]
          (map (\<lambda>i. sentence quiet_env (faker_calls start + i)) [0 ..< nat \<lceil>2 :: rat\<rceil>]))))
          (start\<lparr>faker_calls := faker_calls start + nat \<lceil>2 :: rat\<rceil>\<rparr>)"
    using c [where path = "''a.txt''" and lines = 2] by blast
  have n: "generateTXT quiet_env ''a.txt'' 2 None start = generateTXT quiet_env ''a.txt'' 2 (Some []) start"
    using c [where path = "''a.txt''" and lines = 2] by simp
  have x: "generateXLSX quiet_env ''b.xlsx'' ([] @ (''S'', 1, Some []) # []) start =
        perform quiet_env (WriteXLSX ''b.xlsx''
          (fst (sheets_content quiet_env [] (faker_calls start))
             @ (''S'',
                Some [JStr ''Name'', JStr ''Email'']
                  # map (\<lambda>i. Some [JStr (fullName quiet_env
                                            (snd (sheets_content quiet_env [] (faker_calls start)) + 2 * i)),
                                     JStr (email quiet_env
                                            (snd (sheets_content quiet_env [] (faker_calls start)) + 2 * i + 1))])
                      [0 ..< nat \<lceil>1 :: rat\<rceil>])
             # fst (sheets_content quiet_env []
                    (snd (sheets_content quiet_env [] (faker_calls start)) + 2 * nat \<lceil>1 :: rat\<rceil>))))
          (start\<lparr>faker_calls :=
               snd (sheets_content quiet_env []
                      (snd (sheets_content quiet_env [] (faker_calls start)) + 2 * nat \<lceil>1 :: rat\<rceil>))\<rparr>)"
    using c [where path = "''b.xlsx''" and lines = 1 and sheets = "[]" and sheetName = "''S''"
        and sheets' = "[]"] by blast
  from t n x show ?thesis
    by (simp add: perform_def quiet_env_def start_def upt_rec)
qed

end
